theory Spec2Isabelle
  imports Complex_Main
begin

section \<open>Persisted schema (db/schema.ts)\<close>

text \<open>
  The rows of the four tables the ledger touches. Column names are the source's; where two
  tables share a column name the later record carries a prefix. Row identifiers and
  timestamps are naturals; dates are the ISO date strings the source compares. An amount
  is a JavaScript number and an SQLite REAL, that is an IEEE 754 binary64 value: it is
  modelled as the real number it denotes, and every arithmetic operation of the source
  rounds its exact result to the nearest binary64 value (ties to even).
\<close>

subsection \<open>Binary64 arithmetic\<close>

text \<open>
  Round to nearest, ties to even, on the binary64 grid: 53 significant bits, exponent of
  the leading bit at least \<open>-1022\<close> (below that the grid is the subnormal one). Overflow to
  \<open>Infinity\<close> and \<open>NaN\<close> have no counterpart here: a result of magnitude \<open>2 ^ 1024\<close> or more
  is outside what these definitions describe.
\<close>

definition round_half_even :: "real \<Rightarrow> int" where
  "round_half_even y =
     (let f = \<lfloor>y\<rfloor> in
      if y - of_int f < 1 / 2 then f
      else if 1 / 2 < y - of_int f then f + 1
      else if even f then f else f + 1)"

definition binary64_exponent :: "real \<Rightarrow> int" where
  "binary64_exponent x = max \<lfloor>log 2 \<bar>x\<bar>\<rfloor> (- 1022)"

definition binary64 :: "real \<Rightarrow> real" where
  "binary64 x =
     (if x = 0 then 0
      else of_int (round_half_even (x / 2 powi (binary64_exponent x - 52)))
             * 2 powi (binary64_exponent x - 52))"

text \<open>
  The four operations of JavaScript and of SQLite on REAL values. A decimal literal such as
  \<open>8.21\<close> denotes \<open>binary64 (821 / 100)\<close>.
\<close>

definition double_add :: "real \<Rightarrow> real \<Rightarrow> real" where
  "double_add a b = binary64 (a + b)"

definition double_sub :: "real \<Rightarrow> real \<Rightarrow> real" where
  "double_sub a b = binary64 (a - b)"

definition double_mul :: "real \<Rightarrow> real \<Rightarrow> real" where
  "double_mul a b = binary64 (a * b)"

definition double_div :: "real \<Rightarrow> real \<Rightarrow> real" where
  "double_div a b = binary64 (a / b)"

subsection \<open>Rows\<close>

datatype wallet_kind = Human | Agent

datatype tx_kind = TxTransfer | TxWithdrawal | TxDeposit | TxFee

datatype tx_status = Pending | Confirmed | Failed

datatype wd_status = WPending | WProcessing | WCompleted | WFailed

record Wallet =
  w_id :: nat
  w_user_id :: nat
  public_key :: string
  encrypted_secret_key :: string
  wallet_type :: wallet_kind
  label :: "string option"
  is_active :: nat
  w_created_at :: nat

record Transaction =
  tx_id :: nat
  from_wallet_id :: nat
  to_wallet_id :: "nat option"
  to_external_address :: "string option"
  amount :: real
  token :: string
  fee :: real
  tx_signature :: "string option"
  tx_type :: tx_kind
  status :: tx_status
  error_message :: "string option"
  created_at :: nat
  confirmed_at :: "nat option"

record SpendingLimit =
  sl_id :: nat
  wallet_id :: nat
  daily_limit :: real
  used_today :: real
  reset_date :: string
  sl_created_at :: nat
  updated_at :: nat

record WithdrawalRequest =
  wr_id :: nat
  wr_user_id :: nat
  wr_wallet_id :: nat
  amount_usdc :: real
  amount_fiat :: "real option"
  fiat_currency :: string
  stripe_transfer_id :: "string option"
  wr_status :: wd_status
  wr_error_message :: "string option"
  wr_created_at :: nat
  completed_at :: "nat option"

text \<open>
  The in-memory SQLite database: each table is the list of its rows in insertion order,
  with the AUTOINCREMENT high-water mark SQLite keeps beside it. The wallets table is only
  read by the ledger; wallet identifiers passed to the ledger are taken to name rows of it
  (foreign-key enforcement is not modelled).
\<close>

record database =
  wallets :: "Wallet list"
  transactions :: "Transaction list"
  transactions_seq :: nat
  spending_limits :: "SpendingLimit list"
  spending_limits_seq :: nat
  withdrawal_requests :: "WithdrawalRequest list"
  withdrawal_requests_seq :: nat

section \<open>Store adapter (db/index.ts)\<close>

text \<open>
  Everything a database call can see besides its arguments: the database as the open
  sql.js connection holds it; the transaction the connection has open, if any, kept as the
  database as it was at BEGIN; the clock (\<open>today\<close> is
  \<open>new Date().toISOString().split('T')[0]\<close>, \<open>now\<close> is \<open>CURRENT_TIMESTAMP\<close>); the
  configuration read from the process environment; and the outcomes of the coming
  \<open>database.run\<close> calls: \<open>True\<close> at the head of \<open>faults\<close> means the next statement raises
  instead of taking effect, an empty list means no statement raises any more. A statement
  that raises changes no row.
\<close>

record world =
  store :: database
  tx_begin :: "database option"
  today :: string
  now :: nat
  default_daily_limit :: real
  platform_fee_percent :: real
  faults :: "bool list"

text \<open>A thrown JavaScript value: an \<open>Error\<close> with its message, or anything else.\<close>

datatype exn = Error string | NonError

type_synonym 'a io = "world \<Rightarrow> (exn + 'a) \<times> world"

definition ret :: "'a \<Rightarrow> 'a io" where
  "ret x w = (Inr x, w)"

definition throw :: "exn \<Rightarrow> 'a io" where
  "throw e w = (Inl e, w)"

definition andThen :: "'a io \<Rightarrow> ('a \<Rightarrow> 'b io) \<Rightarrow> 'b io" where
  "andThen m f w = (case m w of (Inl e, w') \<Rightarrow> (Inl e, w') | (Inr x, w') \<Rightarrow> f x w')"

definition tryCatch :: "'a io \<Rightarrow> (exn \<Rightarrow> 'a io) \<Rightarrow> 'a io" where
  "tryCatch m h w = (case m w of (Inl e, w') \<Rightarrow> h e w' | (Inr x, w') \<Rightarrow> (Inr x, w'))"

text \<open>The outcome of a call to an external collaborator, which leaves the store alone.\<close>

definition await :: "exn + 'a \<Rightarrow> 'a io" where
  "await r w = (r, w)"

text \<open>\<open>query\<close> returns the matching rows, \<open>queryOne\<close> the first of them or \<open>undefined\<close>.\<close>

definition query :: "('r \<Rightarrow> bool) \<Rightarrow> 'r list \<Rightarrow> 'r list" where
  "query P rows = filter P rows"

definition queryOne :: "('r \<Rightarrow> bool) \<Rightarrow> 'r list \<Rightarrow> 'r option" where
  "queryOne P rows = (case query P rows of [] \<Rightarrow> None | r # _ \<Rightarrow> Some r)"

definition select :: "(database \<Rightarrow> 'a) \<Rightarrow> 'a io" where
  "select q w = (Inr (q (store w)), w)"

text \<open>\<open>database.run\<close>: the statement takes effect, or raises and changes nothing.\<close>

definition run :: "(database \<Rightarrow> database) \<Rightarrow> unit io" where
  "run stmt w =
     (case faults w of
        [] \<Rightarrow> (Inr (), w\<lparr>store := stmt (store w)\<rparr>)
      | f # fs \<Rightarrow>
          if f then (Inl (Error ''SQLITE_ERROR''), w\<lparr>faults := fs\<rparr>)
          else (Inr (), w\<lparr>store := stmt (store w), faults := fs\<rparr>))"

text \<open>
  \<open>saveDb\<close> calls \<open>db.export()\<close>, which in sql.js closes the connection and opens it again
  on the exported bytes: a transaction that was open is gone, and with it every write made
  since its BEGIN. The write of the file itself is not modelled.
\<close>

definition saveDb :: "unit io" where
  "saveDb w =
     (case tx_begin w of
        None \<Rightarrow> (Inr (), w)
      | Some atBegin \<Rightarrow> (Inr (), w\<lparr>store := atBegin, tx_begin := None\<rparr>))"

text \<open>\<open>execute\<close> runs the statement and saves the database.\<close>

definition execute :: "(database \<Rightarrow> database) \<Rightarrow> unit io" where
  "execute stmt = andThen (run stmt) (\<lambda>u. saveDb)"

text \<open>
  The three transaction statements, each a \<open>database.run\<close> call that changes no row by
  itself: BEGIN opens a transaction, COMMIT closes it and keeps the writes, ROLLBACK closes
  it and restores the database as it was at BEGIN. SQLite refuses BEGIN inside a
  transaction, and COMMIT and ROLLBACK outside one.
\<close>

definition BEGIN_TRANSACTION :: "unit io" where
  "BEGIN_TRANSACTION =
     andThen (run (\<lambda>d. d))
       (\<lambda>u w. case tx_begin w of
                None \<Rightarrow> (Inr (), w\<lparr>tx_begin := Some (store w)\<rparr>)
              | Some atBegin \<Rightarrow>
                  (Inl (Error ''cannot start a transaction within a transaction''), w))"

definition COMMIT :: "unit io" where
  "COMMIT =
     andThen (run (\<lambda>d. d))
       (\<lambda>u w. case tx_begin w of
                None \<Rightarrow> (Inl (Error ''cannot commit - no transaction is active''), w)
              | Some atBegin \<Rightarrow> (Inr (), w\<lparr>tx_begin := None\<rparr>))"

definition ROLLBACK :: "unit io" where
  "ROLLBACK =
     andThen (run (\<lambda>d. d))
       (\<lambda>u w. case tx_begin w of
                None \<Rightarrow> (Inl (Error ''cannot rollback - no transaction is active''), w)
              | Some atBegin \<Rightarrow> (Inr (), w\<lparr>store := atBegin, tx_begin := None\<rparr>))"

text \<open>
  \<open>runTransaction\<close>: BEGIN; then, inside \<open>try\<close>, the body, COMMIT and \<open>saveDb\<close>; a raise
  inside \<open>try\<close> is answered by ROLLBACK and rethrown, unless ROLLBACK itself raises, in
  which case its error is the one that leaves.
\<close>

definition runTransaction :: "'a io \<Rightarrow> 'a io" where
  "runTransaction fn =
     andThen BEGIN_TRANSACTION
       (\<lambda>b. tryCatch
          (andThen fn
             (\<lambda>result. andThen COMMIT (\<lambda>c. andThen saveDb (\<lambda>u. ret result))))
          (\<lambda>error. andThen ROLLBACK (\<lambda>r. throw error)))"

section \<open>SQL statements of db/queries.ts and services/fiat.ts\<close>

text \<open>\<open>UPDATE t SET ... WHERE P\<close> rewrites every matching row in place.\<close>

definition UPDATE_where :: "('r \<Rightarrow> bool) \<Rightarrow> ('r \<Rightarrow> 'r) \<Rightarrow> 'r list \<Rightarrow> 'r list" where
  "UPDATE_where P f rows = map (\<lambda>r. if P r then f r else r) rows"

text \<open>AUTOINCREMENT: one more than the largest identifier the table has ever held.\<close>

definition next_rowid :: "nat \<Rightarrow> nat list \<Rightarrow> nat" where
  "next_rowid seq ids = Suc (fold max ids seq)"

text \<open>\<open>COALESCE(?, column)\<close>: the bound parameter unless it is NULL.\<close>

definition COALESCE :: "'a option \<Rightarrow> 'a option \<Rightarrow> 'a option" where
  "COALESCE p c = (case p of Some v \<Rightarrow> Some v | None \<Rightarrow> c)"

text \<open>JavaScript \<open>x || null\<close> on an optional string and on an optional number.\<close>

definition str_or_null :: "string option \<Rightarrow> string option" where
  "str_or_null x = (case x of None \<Rightarrow> None | Some s \<Rightarrow> if s = [] then None else Some s)"

definition num_or_null :: "nat option \<Rightarrow> nat option" where
  "num_or_null x = (case x of None \<Rightarrow> None | Some n \<Rightarrow> if n = 0 then None else Some n)"

text \<open>
  The row an \<open>INSERT INTO transactions\<close> adds: the seven bound columns, and the schema's
  defaults for the rest.
\<close>

definition new_transaction ::
  "nat \<Rightarrow> nat \<Rightarrow> nat option \<Rightarrow> string option \<Rightarrow> real \<Rightarrow> real \<Rightarrow> string option \<Rightarrow> tx_kind
     \<Rightarrow> database \<Rightarrow> Transaction" where
  "new_transaction ts fromW toW ext amt f sig kind d =
     \<lparr>tx_id = next_rowid (transactions_seq d) (map tx_id (transactions d)),
      from_wallet_id = fromW, to_wallet_id = toW, to_external_address = ext, amount = amt,
      token = ''USDC'', fee = f, tx_signature = sig, tx_type = kind, status = Pending,
      error_message = None, created_at = ts, confirmed_at = None\<rparr>"

definition INSERT_transaction ::
  "nat \<Rightarrow> nat \<Rightarrow> nat option \<Rightarrow> string option \<Rightarrow> real \<Rightarrow> real \<Rightarrow> string option \<Rightarrow> tx_kind
     \<Rightarrow> database \<Rightarrow> database" where
  "INSERT_transaction ts fromW toW ext amt f sig kind d =
     (let r = new_transaction ts fromW toW ext amt f sig kind d in
      d\<lparr>transactions := transactions d @ [r], transactions_seq := tx_id r\<rparr>)"

definition UPDATE_transaction_status ::
  "nat \<Rightarrow> tx_status \<Rightarrow> string option \<Rightarrow> string option \<Rightarrow> nat \<Rightarrow> database \<Rightarrow> database" where
  "UPDATE_transaction_status ts st sig err i d =
     d\<lparr>transactions := UPDATE_where (\<lambda>r. tx_id r = i)
          (\<lambda>r. if st = Confirmed
                then r\<lparr>status := st, tx_signature := COALESCE sig (tx_signature r),
                       error_message := err, confirmed_at := Some ts\<rparr>
                else r\<lparr>status := st, tx_signature := COALESCE sig (tx_signature r),
                       error_message := err\<rparr>)
          (transactions d)\<rparr>"

definition UPDATE_spending_limits_reset :: "string \<Rightarrow> nat \<Rightarrow> nat \<Rightarrow> database \<Rightarrow> database" where
  "UPDATE_spending_limits_reset day ts walletId d =
     d\<lparr>spending_limits := UPDATE_where (\<lambda>r. wallet_id r = walletId)
          (\<lambda>r. r\<lparr>used_today := 0, reset_date := day, updated_at := ts\<rparr>)
          (spending_limits d)\<rparr>"

definition INSERT_spending_limit :: "nat \<Rightarrow> real \<Rightarrow> string \<Rightarrow> nat \<Rightarrow> database \<Rightarrow> database" where
  "INSERT_spending_limit walletId cap day ts d =
     (let i = next_rowid (spending_limits_seq d) (map sl_id (spending_limits d)) in
      d\<lparr>spending_limits := spending_limits d @
           [\<lparr>sl_id = i, wallet_id = walletId, daily_limit = cap, used_today = 0,
             reset_date = day, sl_created_at = ts, updated_at = ts\<rparr>],
         spending_limits_seq := i\<rparr>)"

definition UPDATE_spending_limits_add :: "real \<Rightarrow> nat \<Rightarrow> nat \<Rightarrow> database \<Rightarrow> database" where
  "UPDATE_spending_limits_add amt ts walletId d =
     d\<lparr>spending_limits := UPDATE_where (\<lambda>r. wallet_id r = walletId)
          (\<lambda>r. r\<lparr>used_today := double_add (used_today r) amt, updated_at := ts\<rparr>)
          (spending_limits d)\<rparr>"

definition UPDATE_withdrawal_completed :: "nat \<Rightarrow> nat \<Rightarrow> database \<Rightarrow> database" where
  "UPDATE_withdrawal_completed ts requestId d =
     d\<lparr>withdrawal_requests := UPDATE_where (\<lambda>r. wr_id r = requestId)
          (\<lambda>r. r\<lparr>wr_status := WCompleted, completed_at := Some ts\<rparr>)
          (withdrawal_requests d)\<rparr>"

text \<open>The three single-row lookups: \<open>SELECT * FROM t WHERE key = ?\<close> through \<open>queryOne\<close>.\<close>

definition SELECT_spending_limit :: "nat \<Rightarrow> database \<Rightarrow> SpendingLimit option" where
  "SELECT_spending_limit walletId d = queryOne (\<lambda>r. wallet_id r = walletId) (spending_limits d)"

definition SELECT_transaction :: "nat \<Rightarrow> database \<Rightarrow> Transaction option" where
  "SELECT_transaction i d = queryOne (\<lambda>r. tx_id r = i) (transactions d)"

definition SELECT_withdrawal_request :: "nat \<Rightarrow> database \<Rightarrow> WithdrawalRequest option" where
  "SELECT_withdrawal_request requestId d =
     queryOne (\<lambda>r. wr_id r = requestId) (withdrawal_requests d)"

text \<open>\<open>ORDER BY id DESC LIMIT 1\<close> over the rows a \<open>WHERE\<close> clause kept.\<close>

definition ORDER_BY_id_DESC_LIMIT_1 :: "Transaction list \<Rightarrow> Transaction option" where
  "ORDER_BY_id_DESC_LIMIT_1 rows =
     fold (\<lambda>r best. case best of None \<Rightarrow> Some r
                     | Some b \<Rightarrow> if tx_id b < tx_id r then Some r else Some b) rows None"

section \<open>Ledger and spending-limit queries (db/queries.ts)\<close>

record tx_options =
  toWalletId :: "nat option"
  toExternalAddress :: "string option"
  opt_fee :: "real option"
  txSignature :: "string option"

record status_options =
  so_txSignature :: "string option"
  errorMessage :: "string option"

text \<open>
  \<open>createTransaction\<close> inserts the row and reads back the newest row with the same source
  wallet, amount and type; the log line after it dereferences the row, so an
  \<open>undefined\<close> result raises a \<open>TypeError\<close>.
\<close>

definition createTransaction :: "nat \<Rightarrow> real \<Rightarrow> tx_kind \<Rightarrow> tx_options \<Rightarrow> Transaction io" where
  "createTransaction fromWalletId amt txType options w =
     andThen
       (execute (INSERT_transaction (now w) fromWalletId
          (num_or_null (toWalletId options))
          (str_or_null (toExternalAddress options))
          amt
          (case opt_fee options of None \<Rightarrow> 0 | Some f \<Rightarrow> f)
          (str_or_null (txSignature options))
          txType))
       (\<lambda>u. andThen
          (select (\<lambda>d. ORDER_BY_id_DESC_LIMIT_1
             (query (\<lambda>r. from_wallet_id r = fromWalletId \<and> amount r = amt \<and> tx_type r = txType)
                (transactions d))))
          (\<lambda>tx. case tx of None \<Rightarrow> throw (Error ''TypeError'') | Some t \<Rightarrow> ret t))
       w"

definition updateTransactionStatus ::
  "nat \<Rightarrow> tx_status \<Rightarrow> status_options \<Rightarrow> Transaction option io" where
  "updateTransactionStatus i st options w =
     andThen
       (execute (UPDATE_transaction_status (now w) st
          (str_or_null (so_txSignature options)) (str_or_null (errorMessage options)) i))
       (\<lambda>u. select (SELECT_transaction i))
       w"

definition getOrCreateSpendingLimit :: "nat \<Rightarrow> SpendingLimit option io" where
  "getOrCreateSpendingLimit walletId w =
     (case SELECT_spending_limit walletId (store w) of
        Some existing \<Rightarrow>
          if reset_date existing \<noteq> today w then
            andThen (execute (UPDATE_spending_limits_reset (today w) (now w) walletId))
              (\<lambda>u. select (SELECT_spending_limit walletId)) w
          else ret (Some existing) w
      | None \<Rightarrow>
          andThen
            (execute (INSERT_spending_limit walletId (default_daily_limit w) (today w) (now w)))
            (\<lambda>u. select (SELECT_spending_limit walletId)) w)"

definition recordSpending :: "nat \<Rightarrow> real \<Rightarrow> SpendingLimit option io" where
  "recordSpending walletId amt =
     andThen (getOrCreateSpendingLimit walletId)
       (\<lambda>l w. andThen (execute (UPDATE_spending_limits_add amt (now w) walletId))
          (\<lambda>u. select (SELECT_spending_limit walletId)) w)"

record check_result =
  allowed :: bool
  remaining :: real

text \<open>Reading a field of \<open>undefined\<close> raises a \<open>TypeError\<close>.\<close>

definition checkSpendingAllowed :: "nat \<Rightarrow> real \<Rightarrow> check_result io" where
  "checkSpendingAllowed walletId amt =
     andThen (getOrCreateSpendingLimit walletId)
       (\<lambda>limit. case limit of
          None \<Rightarrow> throw (Error ''TypeError'')
        | Some l \<Rightarrow>
            (let rest = double_sub (daily_limit l) (used_today l) in
             ret \<lparr>allowed = (amt \<le> rest), remaining = rest\<rparr>))"

definition executeTransfer :: "nat \<Rightarrow> nat \<Rightarrow> real \<Rightarrow> string \<Rightarrow> real \<Rightarrow> Transaction option io" where
  "executeTransfer fromWalletId toWalletId' amt sig f =
     runTransaction
       (andThen (recordSpending fromWalletId (double_add amt f))
          (\<lambda>l. andThen
             (createTransaction fromWalletId amt TxTransfer
                \<lparr>toWalletId = Some toWalletId', toExternalAddress = None,
                 opt_fee = Some f, txSignature = Some sig\<rparr>)
             (\<lambda>tx. updateTransactionStatus (tx_id tx) Confirmed
                \<lparr>so_txSignature = Some sig, errorMessage = None\<rparr>)))"

section \<open>Withdrawal sub-ledger (services/fiat.ts)\<close>

definition completeWithdrawal :: "nat \<Rightarrow> WithdrawalRequest option io" where
  "completeWithdrawal requestId w =
     andThen (execute (UPDATE_withdrawal_completed (now w) requestId))
       (\<lambda>u. select (SELECT_withdrawal_request requestId)) w"

section \<open>Transfer orchestrator (services/transaction.ts)\<close>

text \<open>
  The external collaborators, taken as parameters: each call either raises or returns.
  \<open>PublicKey\<close> is the address constructor, \<open>transferUsdc\<close> the settlement call,
  \<open>toFixed2\<close> is \<open>Number.prototype.toFixed(2)\<close>, and \<open>SOLANA_NETWORK\<close> the configured
  network name (\<open>devnet\<close> when unset).
\<close>

record collaborators =
  PublicKey :: "string \<Rightarrow> exn + string"
  hasEnoughUsdc :: "string \<Rightarrow> real \<Rightarrow> exn + bool"
  getWalletKeypair :: "Wallet \<Rightarrow> exn + string"
  transferUsdc :: "string \<Rightarrow> string \<Rightarrow> real \<Rightarrow> exn + string"
  toFixed2 :: "real \<Rightarrow> string"
  SOLANA_NETWORK :: string

record TransferResult =
  success :: bool
  transaction :: "Transaction option"
  signature :: "string option"
  explorerUrl :: "string option"
  error :: "string option"

definition getExplorerUrl :: "string \<Rightarrow> string \<Rightarrow> string" where
  "getExplorerUrl sig network = ''https://explorer.solana.com/tx/'' @ sig @ ''?cluster='' @ network"

definition declined :: "string \<Rightarrow> TransferResult" where
  "declined msg =
     \<lparr>success = False, transaction = None, signature = None, explorerUrl = None,
      error = Some msg\<rparr>"

text \<open>\<open>error instanceof Error ? error.message : 'Unknown error'\<close>\<close>

definition message_of :: "exn \<Rightarrow> string" where
  "message_of e = (case e of Error m \<Rightarrow> m | NonError \<Rightarrow> ''Unknown error'')"

definition transfer :: "collaborators \<Rightarrow> Wallet \<Rightarrow> Wallet \<Rightarrow> real \<Rightarrow> TransferResult io" where
  "transfer c fromWallet toWallet amt =
     andThen (checkSpendingAllowed (w_id fromWallet) amt)
     (\<lambda>chk.
       if \<not> allowed chk then
         ret (declined (''Daily spending limit exceeded. Remaining: $'' @ toFixed2 c (remaining chk)))
       else
         andThen (await (PublicKey c (public_key fromWallet)))
         (\<lambda>fromPublicKey. andThen (await (hasEnoughUsdc c fromPublicKey amt))
         (\<lambda>hasBalance.
           if \<not> hasBalance then ret (declined ''Insufficient USDC balance'')
           else (\<lambda>w.
             (let feePercent = platform_fee_percent w;
                  fee' = double_mul amt (double_div feePercent 100);
                  netAmount = double_sub amt fee'
              in andThen
                   (createTransaction (w_id fromWallet) amt TxTransfer
                      \<lparr>toWalletId = Some (w_id toWallet), toExternalAddress = None,
                       opt_fee = Some fee', txSignature = None\<rparr>)
                 (\<lambda>pendingTx.
                   tryCatch
                     (andThen (await (getWalletKeypair c fromWallet))
                      (\<lambda>fromKeypair. andThen (await (PublicKey c (public_key toWallet)))
                      (\<lambda>toPublicKey. andThen (await (transferUsdc c fromKeypair toPublicKey netAmount))
                      (\<lambda>sig. andThen
                         (executeTransfer (w_id fromWallet) (w_id toWallet) amt sig fee')
                      (\<lambda>confirmedTx.
                         ret \<lparr>success = True, transaction = confirmedTx, signature = Some sig,
                              explorerUrl = Some (getExplorerUrl sig (SOLANA_NETWORK c)),
                              error = None\<rparr>)))))
                     (\<lambda>err.
                        andThen
                          (updateTransactionStatus (tx_id pendingTx) Failed
                             \<lparr>so_txSignature = None, errorMessage = Some (message_of err)\<rparr>)
                          (\<lambda>failedTx. ret (declined (message_of err)))))
                 w)))))"

definition transferExternal :: "collaborators \<Rightarrow> Wallet \<Rightarrow> string \<Rightarrow> real \<Rightarrow> TransferResult io" where
  "transferExternal c fromWallet toAddress amt =
     (case PublicKey c toAddress of
        Inl invalid \<Rightarrow> ret (declined ''Invalid Solana address'')
      | Inr toPublicKey \<Rightarrow>
          andThen (checkSpendingAllowed (w_id fromWallet) amt)
          (\<lambda>chk.
            if \<not> allowed chk then
              ret (declined (''Daily spending limit exceeded. Remaining: $'' @ toFixed2 c (remaining chk)))
            else
              andThen (await (PublicKey c (public_key fromWallet)))
              (\<lambda>fromPublicKey. andThen (await (hasEnoughUsdc c fromPublicKey amt))
              (\<lambda>hasBalance.
                if \<not> hasBalance then ret (declined ''Insufficient USDC balance'')
                else
                  andThen
                    (createTransaction (w_id fromWallet) amt TxTransfer
                       \<lparr>toWalletId = None, toExternalAddress = Some toAddress,
                        opt_fee = None, txSignature = None\<rparr>)
                  (\<lambda>pendingTx.
                    tryCatch
                      (andThen (await (getWalletKeypair c fromWallet))
                       (\<lambda>fromKeypair. andThen (await (transferUsdc c fromKeypair toPublicKey amt))
                       (\<lambda>sig. andThen (recordSpending (w_id fromWallet) amt)
                       (\<lambda>l. andThen
                          (updateTransactionStatus (tx_id pendingTx) Confirmed
                             \<lparr>so_txSignature = Some sig, errorMessage = None\<rparr>)
                       (\<lambda>confirmedTx.
                          ret \<lparr>success = True, transaction = confirmedTx, signature = Some sig,
                               explorerUrl = Some (getExplorerUrl sig (SOLANA_NETWORK c)),
                               error = None\<rparr>)))))
                      (\<lambda>err.
                         andThen
                           (updateTransactionStatus (tx_id pendingTx) Failed
                              \<lparr>so_txSignature = None, errorMessage = Some (message_of err)\<rparr>)
                           (\<lambda>failedTx. ret (declined (message_of err)))))))))"

section \<open>The spending counter as the specification reads it\<close>

text \<open>
  The specification's view of a wallet's limit row: a row whose \<open>reset_date\<close> is not today
  counts as zero spent, and a wallet without a row has the configured default cap and
  nothing spent. These two functions follow the specification's words, not the code.
\<close>

definition effective_limit :: "nat \<Rightarrow> world \<Rightarrow> real" where
  "effective_limit walletId w =
     (case SELECT_spending_limit walletId (store w) of
        Some l \<Rightarrow> daily_limit l
      | None \<Rightarrow> default_daily_limit w)"

definition effective_used :: "nat \<Rightarrow> world \<Rightarrow> real" where
  "effective_used walletId w =
     (case SELECT_spending_limit walletId (store w) of
        Some l \<Rightarrow> if reset_date l = today w then used_today l else 0
      | None \<Rightarrow> 0)"

text \<open>A run of \<open>recordSpending\<close> calls on one wallet, one per amount, in order.\<close>

fun record_all :: "nat \<Rightarrow> real list \<Rightarrow> unit io" where
  "record_all walletId [] = ret ()"
| "record_all walletId (a # as) =
     andThen (recordSpending walletId a) (\<lambda>l. record_all walletId as)"


section \<open>What a failed settlement leaves behind\<close>


section \<open>Concrete scenarios\<close>

text \<open>
  A store holding one limit row for wallet 1 (cap 100, 80 spent, dated today), and the same
  store read one day later.
\<close>

definition demo :: world where
  "demo = \<lparr>store = \<lparr>wallets = [], transactions = [], transactions_seq = 0,
      spending_limits = [\<lparr>sl_id = 1, wallet_id = 1, daily_limit = 100, used_today = 80,
         reset_date = ''2024-01-02'', sl_created_at = 0, updated_at = 0\<rparr>],
      spending_limits_seq = 1, withdrawal_requests = [], withdrawal_requests_seq = 0\<rparr>,
    tx_begin = None, today = ''2024-01-02'', now = 5, default_daily_limit = 1000, platform_fee_percent = 1,
    faults = []\<rparr>"

definition demo_next_day :: world where
  "demo_next_day = demo\<lparr>today := ''2024-01-03''\<rparr>"

text \<open>
  The same store with 8.21 spent instead of 80, and with nothing spent: the two places
  where binary64 rounding shows.
\<close>

definition demo_rounding :: world where
  "demo_rounding = demo\<lparr>store := (store demo)\<lparr>spending_limits :=
     [\<lparr>sl_id = 1, wallet_id = 1, daily_limit = 100, used_today = binary64 (821 / 100),
       reset_date = ''2024-01-02'', sl_created_at = 0, updated_at = 0\<rparr>]\<rparr>\<rparr>"

definition demo_unused :: world where
  "demo_unused = demo\<lparr>store := (store demo)\<lparr>spending_limits :=
     [\<lparr>sl_id = 1, wallet_id = 1, daily_limit = 100, used_today = 0,
       reset_date = ''2024-01-02'', sl_created_at = 0, updated_at = 0\<rparr>]\<rparr>\<rparr>"

text \<open>
  A ledger holding one confirmed transfer with reference \<open>sigA\<close> and one failed withdrawal
  request.
\<close>

definition ledger_demo :: world where
  "ledger_demo = \<lparr>store = \<lparr>wallets = [],
      transactions = [\<lparr>tx_id = 1, from_wallet_id = 1, to_wallet_id = Some 2,
         to_external_address = None, amount = 50, token = ''USDC'', fee = 1 / 2,
         tx_signature = Some ''sigA'', tx_type = TxTransfer, status = Confirmed,
         error_message = None, created_at = 3, confirmed_at = Some 4\<rparr>],
      transactions_seq = 1, spending_limits = [], spending_limits_seq = 0,
      withdrawal_requests = [\<lparr>wr_id = 1, wr_user_id = 1, wr_wallet_id = 1, amount_usdc = 20,
         amount_fiat = Some (197 / 10), fiat_currency = ''USD'', stripe_transfer_id = None,
         wr_status = WFailed, wr_error_message = Some ''bank rejected'', wr_created_at = 3,
         completed_at = None\<rparr>],
      withdrawal_requests_seq = 1\<rparr>,
    tx_begin = None, today = ''2024-01-02'', now = 5, default_daily_limit = 1000, platform_fee_percent = 1,
    faults = []\<rparr>"

text \<open>
  Two wallets, a network on which every call succeeds and the settlement returns \<open>sig1\<close>,
  and the same network with a settlement call that raises.
\<close>

definition alice :: Wallet where
  "alice = \<lparr>w_id = 1, w_user_id = 1, public_key = ''ALICE'', encrypted_secret_key = ''sk1'',
     wallet_type = Human, label = None, is_active = 1, w_created_at = 0\<rparr>"

definition bob :: Wallet where
  "bob = \<lparr>w_id = 2, w_user_id = 2, public_key = ''BOB'', encrypted_secret_key = ''sk2'',
     wallet_type = Agent, label = None, is_active = 1, w_created_at = 0\<rparr>"

definition net_ok :: collaborators where
  "net_ok = \<lparr>PublicKey = (\<lambda>s. Inr s), hasEnoughUsdc = (\<lambda>a x. Inr True),
     getWalletKeypair = (\<lambda>w. Inr (encrypted_secret_key w)),
     transferUsdc = (\<lambda>k t a. Inr ''sig1''), toFixed2 = (\<lambda>x. ''?''),
     SOLANA_NETWORK = ''devnet''\<rparr>"

definition net_down :: collaborators where
  "net_down = net_ok\<lparr>transferUsdc := (\<lambda>k t a. Inl (Error ''network down''))\<rparr>"

section \<open>Facts about binary64 rounding\<close>

lemma binary64_exponent_eq:
  assumes "2 powi k \<le> \<bar>x\<bar>" "\<bar>x\<bar> < 2 powi (k + 1)" "- 1022 \<le> k"
  shows "binary64_exponent x = k"
proof -
  have pos: "0 < \<bar>x\<bar>" using assms(1) by (smt (verit) zero_less_power_int)
  have a: "2 powr (real_of_int k) \<le> \<bar>x\<bar>"
    using assms(1) by (simp add: powr_real_of_int')
  have "(2::real) powr (real_of_int (k + 1)) = (2::real) powi (k + 1)"
    using powr_real_of_int'[of "2::real" "k + 1"] by simp
  then have b: "\<bar>x\<bar> < 2 powr (real_of_int k + 1)"
    using assms(2) by simp
  have "\<lfloor>log 2 \<bar>x\<bar>\<rfloor> = k"
    using a b pos by (simp add: floor_log_eq_powr_iff)
  then show ?thesis using assms(3) by (simp add: binary64_exponent_def)
qed

lemma binary64_eval:
  assumes "2 powi k \<le> \<bar>x\<bar>" "\<bar>x\<bar> < 2 powi (k + 1)" "- 1022 \<le> k"
  shows "binary64 x = of_int (round_half_even (x / 2 powi (k - 52))) * 2 powi (k - 52)"
proof -
  have "x \<noteq> 0" using assms(1) by (smt (verit) zero_less_power_int)
  then show ?thesis
    by (simp add: binary64_def binary64_exponent_eq[OF assms])
qed

lemma rhe_cases: "round_half_even y = \<lfloor>y\<rfloor> \<or> round_half_even y = \<lfloor>y\<rfloor> + 1"
  by (simp add: round_half_even_def Let_def)

lemma rhe_of_int: "round_half_even (of_int n) = n"
  by (simp add: round_half_even_def)

lemma rhe_ge: "of_int n \<le> y \<Longrightarrow> n \<le> round_half_even y"
  using rhe_cases[of y] by (smt (verit) le_floor_iff)

lemma rhe_le: "y \<le> of_int n \<Longrightarrow> round_half_even y \<le> n"
proof (cases "y = of_int n")
  case True
  then show ?thesis by (simp add: rhe_of_int)
next
  case False
  assume "y \<le> of_int n"
  with False have "y < of_int n" by simp
  then have "\<lfloor>y\<rfloor> < n" by (simp add: floor_less_iff)
  then show ?thesis using rhe_cases[of y] by linarith
qed

lemma rhe_mono: "a \<le> b \<Longrightarrow> round_half_even a \<le> round_half_even b"
proof -
  assume ab: "a \<le> b"
  then have fl: "\<lfloor>a\<rfloor> \<le> \<lfloor>b\<rfloor>" by (rule floor_mono)
  show ?thesis
  proof (cases "\<lfloor>a\<rfloor> = \<lfloor>b\<rfloor>")
    case True
    then show ?thesis using ab by (auto simp: round_half_even_def Let_def)
  next
    case False
    with fl have "\<lfloor>a\<rfloor> + 1 \<le> \<lfloor>b\<rfloor>" by simp
    then show ?thesis using rhe_cases[of a] rhe_cases[of b] by linarith
  qed
qed

lemma rhe_minus: "round_half_even (- y) = - round_half_even y"
proof (cases "y = of_int \<lfloor>y\<rfloor>")
  case True
  then have "round_half_even y = \<lfloor>y\<rfloor>" by (metis rhe_of_int)
  moreover have "round_half_even (- y) = - \<lfloor>y\<rfloor>"
    by (metis True of_int_minus rhe_of_int)
  ultimately show ?thesis by simp
next
  case False
  then have f: "\<lfloor>- y\<rfloor> = - \<lfloor>y\<rfloor> - 1"
    by (smt (verit) ceiling_altdef ceiling_def of_int_floor_cancel)
  have lt: "of_int \<lfloor>y\<rfloor> < y" using False by (smt (verit) of_int_floor_le)
  show ?thesis
    using lt by (auto simp: round_half_even_def Let_def f)
qed

lemma binary64_exponent_minus: "binary64_exponent (- x) = binary64_exponent x"
  by (simp add: binary64_exponent_def)

lemma binary64_minus: "binary64 (- x) = - binary64 x"
  by (simp add: binary64_def binary64_exponent_minus rhe_minus)

lemma binary64_nonneg: "0 \<le> x \<Longrightarrow> 0 \<le> binary64 x"
proof -
  assume "0 \<le> x"
  then have "0 \<le> x / 2 powi (binary64_exponent x - 52)" by simp
  then have "0 \<le> round_half_even (x / 2 powi (binary64_exponent x - 52))"
    using rhe_ge[of 0] by simp
  then show ?thesis by (simp add: binary64_def)
qed

lemma binary64_nonpos: "x \<le> 0 \<Longrightarrow> binary64 x \<le> 0"
  using binary64_nonneg[of "- x"] by (simp add: binary64_minus)

lemma binary64_mono_pos:
  assumes "0 < x" "x \<le> y"
  shows "binary64 x \<le> binary64 y"
proof -
  let ?ex = "binary64_exponent x" and ?ey = "binary64_exponent y"
  have ypos: "0 < y" using assms by simp
  have lx: "2 powr (of_int \<lfloor>log 2 x\<rfloor>) \<le> x" "x < 2 powr (of_int \<lfloor>log 2 x\<rfloor> + 1)"
    using floor_log_eq_powr_iff[of x 2 "\<lfloor>log 2 x\<rfloor>"] assms(1) by simp_all
  have ly: "2 powr (of_int \<lfloor>log 2 y\<rfloor>) \<le> y"
    using floor_log_eq_powr_iff[of y 2 "\<lfloor>log 2 y\<rfloor>"] ypos by simp
  have "log 2 x \<le> log 2 y" using assms by simp
  then have fl: "\<lfloor>log 2 x\<rfloor> \<le> \<lfloor>log 2 y\<rfloor>" by (rule floor_mono)
  then have e: "?ex \<le> ?ey" using assms ypos by (simp add: binary64_exponent_def)
  have nz: "x \<noteq> 0" "y \<noteq> 0" using assms by simp_all
  show ?thesis
  proof (cases "?ex = ?ey")
    case True
    have "x / 2 powi (?ey - 52) \<le> y / 2 powi (?ey - 52)"
      using assms(2) by (simp add: divide_right_mono)
    then have "round_half_even (x / 2 powi (?ey - 52)) \<le> round_half_even (y / 2 powi (?ey - 52))"
      by (rule rhe_mono)
    then show ?thesis using nz True by (simp add: binary64_def)
  next
    case False
    with e have lt: "?ex < ?ey" by simp
    then have ey: "?ey = \<lfloor>log 2 y\<rfloor>"
      using ypos by (auto simp: binary64_exponent_def)
    have "(2::real) powi ?ey \<le> y"
      using ly ey by (simp add: powr_real_of_int')
    then have "of_int (2 ^ 52) \<le> y / 2 powi (?ey - 52)"
      by (simp add: power_int_diff field_simps)
    then have "2 ^ 52 \<le> round_half_even (y / 2 powi (?ey - 52))" by (rule rhe_ge)
    then have "of_int (2 ^ 52) * 2 powi (?ey - 52) \<le> binary64 y"
      using nz by (simp add: binary64_def)
    then have hi: "(2::real) powi ?ey \<le> binary64 y"
      by (simp add: power_int_diff)
    have "\<lfloor>log 2 x\<rfloor> \<le> ?ex" using assms(1) by (simp add: binary64_exponent_def)
    then have "(2::real) powr (of_int \<lfloor>log 2 x\<rfloor> + 1) \<le> 2 powr (of_int ?ex + 1)"
      by simp
    also have "\<dots> = 2 powi (?ex + 1)"
      using powr_real_of_int'[of "2::real" "?ex + 1"] by simp
    finally have "x \<le> 2 powi (?ex + 1)" using lx(2) by simp
    then have "x / 2 powi (?ex - 52) \<le> of_int (2 ^ 53)"
      by (simp add: power_int_diff power_int_add field_simps)
    then have "round_half_even (x / 2 powi (?ex - 52)) \<le> 2 ^ 53" by (rule rhe_le)
    then have "binary64 x \<le> of_int (2 ^ 53) * 2 powi (?ex - 52)"
      using nz by (simp add: binary64_def)
    then have "binary64 x \<le> 2 powi (?ex + 1)"
      by (simp add: power_int_diff power_int_add)
    also have "\<dots> \<le> 2 powi ?ey"
      using lt by (intro power_int_increasing) simp_all
    finally show ?thesis using hi by simp
  qed
qed

lemma binary64_mono: "x \<le> y \<Longrightarrow> binary64 x \<le> binary64 y"
proof -
  assume xy: "x \<le> y"
  consider "0 < x" | "x \<le> 0" "0 \<le> y" | "y < 0" by linarith
  then show ?thesis
  proof cases
    case 1
    then show ?thesis using xy by (rule binary64_mono_pos)
  next
    case 2
    then show ?thesis using binary64_nonpos[of x] binary64_nonneg[of y] by simp
  next
    case 3
    then have "0 < - y" "- y \<le> - x" using xy by simp_all
    then have "binary64 (- y) \<le> binary64 (- x)" by (rule binary64_mono_pos)
    then show ?thesis by (simp add: binary64_minus)
  qed
qed

text \<open>The values the concrete scenarios need, each computed on its own grid.\<close>

lemma binary64_5: "binary64 5 = 5"
  by (subst binary64_eval[of 2]) (simp_all add: round_half_even_def)
lemma binary64_20: "binary64 20 = 20"
  by (subst binary64_eval[of 4]) (simp_all add: round_half_even_def)
lemma binary64_50: "binary64 50 = 50"
  by (subst binary64_eval[of 5]) (simp_all add: round_half_even_def)
lemma binary64_85: "binary64 85 = 85"
  by (subst binary64_eval[of 6]) (simp_all add: round_half_even_def)
lemma binary64_90: "binary64 90 = 90"
  by (subst binary64_eval[of 6]) (simp_all add: round_half_even_def)
lemma binary64_95: "binary64 95 = 95"
  by (subst binary64_eval[of 6]) (simp_all add: round_half_even_def)
lemma binary64_100: "binary64 100 = 100"
  by (subst binary64_eval[of 6]) (simp_all add: round_half_even_def)
lemma binary64_130: "binary64 130 = 130"
  by (subst binary64_eval[of 7]) (simp_all add: round_half_even_def)
lemma binary64_minus_30: "binary64 (- 30) = - 30"
  by (subst binary64_eval[of 4]) (simp_all add: round_half_even_def)

lemma binary64_8_21: "binary64 (821 / 100) = 1155454779397243 / 140737488355328"
  by (subst binary64_eval[of 3]) (simp_all add: round_half_even_def)
lemma binary64_91_79: "binary64 (9179 / 100) = 6459147028067779 / 70368744177664"
  by (subst binary64_eval[of 6]) (simp_all add: round_half_even_def)
lemma binary64_100_minus_8_21:
  "binary64 (12918294056135557 / 140737488355328) = 3229573514033889 / 35184372088832"
  by (subst binary64_eval[of 6]) (simp_all add: round_half_even_def)
lemma binary64_8_21_plus_91_79:
  "binary64 (14073748835532801 / 140737488355328) = 100"
  by (subst binary64_eval[of 6]) (simp_all add: round_half_even_def)
lemma binary64_0_1: "binary64 (1 / 10) = 3602879701896397 / 36028797018963968"
  by (subst binary64_eval[of "- 4"]) (simp_all add: round_half_even_def)
lemma binary64_0_1_again:
  "binary64 (3602879701896397 / 36028797018963968) = 3602879701896397 / 36028797018963968"
  by (subst binary64_eval[of "- 4"]) (simp_all add: round_half_even_def)
lemma binary64_0_2: "binary64 (1 / 5) = 3602879701896397 / 18014398509481984"
  by (subst binary64_eval[of "- 3"]) (simp_all add: round_half_even_def)
lemma binary64_0_1_plus_0_2:
  "binary64 (10808639105689191 / 36028797018963968) = 1351079888211149 / 4503599627370496"
  by (subst binary64_eval[of "- 2"]) (simp_all add: round_half_even_def)
lemma binary64_0_3: "binary64 (3 / 10) = 5404319552844595 / 18014398509481984"
  by (subst binary64_eval[of "- 2"]) (simp_all add: round_half_even_def)

lemmas binary64_values = binary64_5 binary64_20 binary64_50 binary64_85 binary64_90 binary64_95
  binary64_100 binary64_130 binary64_minus_30 binary64_8_21 binary64_91_79
  binary64_100_minus_8_21 binary64_8_21_plus_91_79 binary64_0_1 binary64_0_1_again binary64_0_2
  binary64_0_1_plus_0_2 binary64_0_3

section \<open>Facts about the store adapter and the limit row\<close>

lemma execute_ok:
  "faults w = [] \<and> tx_begin w = None \<Longrightarrow>
   execute stmt w = (Inr (), w\<lparr>store := stmt (store w)\<rparr>)"
  by (simp add: execute_def run_def saveDb_def andThen_def)

lemma queryOne_Nil: "queryOne P [] = None"
  by (simp add: queryOne_def query_def)

lemma queryOne_Cons: "queryOne P (r # rows) = (if P r then Some r else queryOne P rows)"
  by (simp add: queryOne_def query_def)

lemma queryOne_append:
  "queryOne P (rows @ rest) = (case queryOne P rows of Some r \<Rightarrow> Some r | None \<Rightarrow> queryOne P rest)"
  by (induction rows) (simp_all add: queryOne_Nil queryOne_Cons)

lemma queryOne_UPDATE_where:
  assumes "\<And>r. P r \<Longrightarrow> P (f r)"
  shows "queryOne P (UPDATE_where P f rows) = map_option f (queryOne P rows)"
  using assms by (induction rows) (simp_all add: UPDATE_where_def queryOne_Nil queryOne_Cons)

lemma queryOne_SomeD: "queryOne P rows = Some r \<Longrightarrow> P r \<and> r \<in> set rows"
  by (induction rows) (auto simp: queryOne_Nil queryOne_Cons split: if_splits)

lemma SELECT_after_reset:
  "SELECT_spending_limit wid (UPDATE_spending_limits_reset day ts wid d) =
     map_option (\<lambda>r. r\<lparr>used_today := 0, reset_date := day, updated_at := ts\<rparr>)
       (SELECT_spending_limit wid d)"
  by (simp add: SELECT_spending_limit_def UPDATE_spending_limits_reset_def queryOne_UPDATE_where)

lemma SELECT_after_add:
  "SELECT_spending_limit wid (UPDATE_spending_limits_add amt ts wid d) =
     map_option (\<lambda>r. r\<lparr>used_today := double_add (used_today r) amt, updated_at := ts\<rparr>)
       (SELECT_spending_limit wid d)"
  by (simp add: SELECT_spending_limit_def UPDATE_spending_limits_add_def queryOne_UPDATE_where)

lemma SELECT_after_insert:
  "SELECT_spending_limit wid d = None \<Longrightarrow>
   SELECT_spending_limit wid (INSERT_spending_limit wid cap day ts d) =
     Some \<lparr>sl_id = next_rowid (spending_limits_seq d) (map sl_id (spending_limits d)),
           wallet_id = wid, daily_limit = cap, used_today = 0, reset_date = day,
           sl_created_at = ts, updated_at = ts\<rparr>"
  by (simp add: SELECT_spending_limit_def INSERT_spending_limit_def Let_def queryOne_append
      queryOne_Cons)

lemma getOrCreate_current:
  "SELECT_spending_limit wid (store w) = Some l \<Longrightarrow> reset_date l = today w \<Longrightarrow>
   getOrCreateSpendingLimit wid w = (Inr (Some l), w)"
  by (simp add: getOrCreateSpendingLimit_def ret_def)

lemma getOrCreate_stale:
  "faults w = [] \<and> tx_begin w = None \<Longrightarrow> SELECT_spending_limit wid (store w) = Some l \<Longrightarrow>
   reset_date l \<noteq> today w \<Longrightarrow>
   getOrCreateSpendingLimit wid w =
     (Inr (Some (l\<lparr>used_today := 0, reset_date := today w, updated_at := now w\<rparr>)),
      w\<lparr>store := UPDATE_spending_limits_reset (today w) (now w) wid (store w)\<rparr>)"
  by (simp add: getOrCreateSpendingLimit_def andThen_def execute_ok select_def SELECT_after_reset)

lemma getOrCreate_absent:
  "faults w = [] \<and> tx_begin w = None \<Longrightarrow> SELECT_spending_limit wid (store w) = None \<Longrightarrow>
   getOrCreateSpendingLimit wid w =
     (Inr (Some \<lparr>sl_id = next_rowid (spending_limits_seq (store w))
                          (map sl_id (spending_limits (store w))),
                 wallet_id = wid, daily_limit = default_daily_limit w, used_today = 0,
                 reset_date = today w, sl_created_at = now w, updated_at = now w\<rparr>),
      w\<lparr>store := INSERT_spending_limit wid (default_daily_limit w) (today w) (now w) (store w)\<rparr>)"
  by (simp add: getOrCreateSpendingLimit_def andThen_def execute_ok select_def SELECT_after_insert)

lemma getOrCreate_summary:
  assumes "faults w = [] \<and> tx_begin w = None"
  shows "\<exists>l d. getOrCreateSpendingLimit wid w = (Inr (Some l), w\<lparr>store := d\<rparr>)
           \<and> SELECT_spending_limit wid d = Some l
           \<and> daily_limit l = effective_limit wid w
           \<and> used_today l = effective_used wid w
           \<and> reset_date l = today w"
proof (cases "SELECT_spending_limit wid (store w)")
  case None
  let ?d = "INSERT_spending_limit wid (default_daily_limit w) (today w) (now w) (store w)"
  let ?l = "\<lparr>sl_id = next_rowid (spending_limits_seq (store w))
                          (map sl_id (spending_limits (store w))),
                 wallet_id = wid, daily_limit = default_daily_limit w, used_today = 0,
                 reset_date = today w, sl_created_at = now w, updated_at = now w\<rparr>"
  have "getOrCreateSpendingLimit wid w = (Inr (Some ?l), w\<lparr>store := ?d\<rparr>)"
    using None assms by (simp add: getOrCreate_absent)
  moreover have "SELECT_spending_limit wid ?d = Some ?l"
    using None by (simp add: SELECT_after_insert)
  moreover have "daily_limit ?l = effective_limit wid w" "used_today ?l = effective_used wid w"
    "reset_date ?l = today w"
    using None by (simp_all add: effective_limit_def effective_used_def)
  ultimately show ?thesis by blast
next
  case (Some l)
  show ?thesis
  proof (cases "reset_date l = today w")
    case True
    have "getOrCreateSpendingLimit wid w = (Inr (Some l), w\<lparr>store := store w\<rparr>)"
      using Some True by (simp add: getOrCreate_current)
    moreover have "daily_limit l = effective_limit wid w" "used_today l = effective_used wid w"
      using Some True by (simp_all add: effective_limit_def effective_used_def)
    ultimately show ?thesis using Some True by blast
  next
    case False
    let ?d = "UPDATE_spending_limits_reset (today w) (now w) wid (store w)"
    let ?l = "l\<lparr>used_today := 0, reset_date := today w, updated_at := now w\<rparr>"
    have "getOrCreateSpendingLimit wid w = (Inr (Some ?l), w\<lparr>store := ?d\<rparr>)"
      using False Some assms by (simp add: getOrCreate_stale)
    moreover have "SELECT_spending_limit wid ?d = Some ?l"
      using Some by (simp add: SELECT_after_reset)
    moreover have "daily_limit ?l = effective_limit wid w" "used_today ?l = effective_used wid w"
      "reset_date ?l = today w"
      using Some False by (simp_all add: effective_limit_def effective_used_def)
    ultimately show ?thesis by blast
  qed
qed

lemma recordSpending_summary:
  assumes "faults w = [] \<and> tx_begin w = None"
  shows "\<exists>l d. recordSpending wid amt w = (Inr (Some l), w\<lparr>store := d\<rparr>)
           \<and> SELECT_spending_limit wid d = Some l
           \<and> daily_limit l = effective_limit wid w
           \<and> used_today l = double_add (effective_used wid w) amt
           \<and> reset_date l = today w"
proof -
  from getOrCreate_summary[OF assms, of wid] obtain l0 d0 where
    g: "getOrCreateSpendingLimit wid w = (Inr (Some l0), w\<lparr>store := d0\<rparr>)"
    and sel: "SELECT_spending_limit wid d0 = Some l0"
    and props: "daily_limit l0 = effective_limit wid w" "used_today l0 = effective_used wid w"
      "reset_date l0 = today w"
    by blast
  let ?d = "UPDATE_spending_limits_add amt (now w) wid d0"
  let ?l = "l0\<lparr>used_today := double_add (used_today l0) amt, updated_at := now w\<rparr>"
  have s: "SELECT_spending_limit wid ?d = Some ?l"
    using sel by (simp add: SELECT_after_add)
  have "recordSpending wid amt w = (Inr (Some ?l), w\<lparr>store := ?d\<rparr>)"
    using g assms s by (simp add: recordSpending_def andThen_def execute_ok select_def)
  moreover have "daily_limit ?l = effective_limit wid w"
    "used_today ?l = double_add (effective_used wid w) amt" "reset_date ?l = today w"
    using props by simp_all
  ultimately show ?thesis using s by blast
qed

lemma checkSpendingAllowed_summary:
  assumes "faults w = [] \<and> tx_begin w = None"
  shows "checkSpendingAllowed wid amt w =
            (Inr \<lparr>allowed = (amt \<le> double_sub (effective_limit wid w) (effective_used wid w)),
                  remaining = double_sub (effective_limit wid w) (effective_used wid w)\<rparr>,
             snd (getOrCreateSpendingLimit wid w))"
proof -
  from getOrCreate_summary[OF assms, of wid] obtain l0 d0 where
    g: "getOrCreateSpendingLimit wid w = (Inr (Some l0), w\<lparr>store := d0\<rparr>)"
    and props: "daily_limit l0 = effective_limit wid w" "used_today l0 = effective_used wid w"
    by blast
  show ?thesis using g props
    by (simp add: checkSpendingAllowed_def andThen_def ret_def Let_def)
qed


lemma effective_of_row:
  "SELECT_spending_limit wid (store w) = Some l \<Longrightarrow> reset_date l = today w \<Longrightarrow>
   effective_limit wid w = daily_limit l \<and> effective_used wid w = used_today l"
  by (simp add: effective_limit_def effective_used_def)

section \<open>Spending-limit tracker\<close>

text \<open>
  Claim C6. Called with no transaction open and no statement raising,
  \<open>checkSpendingAllowed\<close> answers from the wallet's limit row as it stands after rollover: \<open>remaining\<close> is \<open>daily_limit - used_today\<close> of that row,
  computed in binary64 as the code computes it, and \<open>allowed\<close> is \<open>amount \<le> remaining\<close>. The row is the stored one when it carries
  today's date, has zero spent when it was stale, and has the default cap when it had to be
  created.
\<close>

theorem check_remaining:
  assumes "faults w = [] \<and> tx_begin w = None"
  shows "(\<exists>l w'. checkSpendingAllowed wid amt w =
             (Inr \<lparr>allowed = (amt \<le> double_sub (daily_limit l) (used_today l)),
                   remaining = double_sub (daily_limit l) (used_today l)\<rparr>, w')
           \<and> SELECT_spending_limit wid (store w') = Some l
           \<and> reset_date l = today w
           \<and> daily_limit l = effective_limit wid w
           \<and> used_today l = effective_used wid w)
       \<and> (\<forall>l. SELECT_spending_limit wid (store w) = Some l \<and> reset_date l = today w
                 \<and> daily_limit l = 100 \<and> used_today l = 80 \<longrightarrow>
               fst (checkSpendingAllowed wid 25 w) = Inr \<lparr>allowed = False, remaining = 20\<rparr>
             \<and> fst (checkSpendingAllowed wid 15 w) = Inr \<lparr>allowed = True, remaining = 20\<rparr>)"
proof (rule conjI)
  from getOrCreate_summary[OF assms, of wid] obtain l0 d0 where
    g: "getOrCreateSpendingLimit wid w = (Inr (Some l0), w\<lparr>store := d0\<rparr>)"
    and sel: "SELECT_spending_limit wid d0 = Some l0"
    and props: "daily_limit l0 = effective_limit wid w" "used_today l0 = effective_used wid w"
      "reset_date l0 = today w"
    by blast
  have "checkSpendingAllowed wid amt w =
           (Inr \<lparr>allowed = (amt \<le> double_sub (daily_limit l0) (used_today l0)),
                 remaining = double_sub (daily_limit l0) (used_today l0)\<rparr>, w\<lparr>store := d0\<rparr>)"
    using g by (simp add: checkSpendingAllowed_def andThen_def ret_def Let_def)
  moreover have "SELECT_spending_limit wid (store (w\<lparr>store := d0\<rparr>)) = Some l0"
    using sel by simp
  ultimately show "\<exists>l w'. checkSpendingAllowed wid amt w =
             (Inr \<lparr>allowed = (amt \<le> double_sub (daily_limit l) (used_today l)),
                   remaining = double_sub (daily_limit l) (used_today l)\<rparr>, w')
           \<and> SELECT_spending_limit wid (store w') = Some l
           \<and> reset_date l = today w
           \<and> daily_limit l = effective_limit wid w
           \<and> used_today l = effective_used wid w"
    using props by blast
next
  show "\<forall>l. SELECT_spending_limit wid (store w) = Some l \<and> reset_date l = today w
                 \<and> daily_limit l = 100 \<and> used_today l = 80 \<longrightarrow>
               fst (checkSpendingAllowed wid 25 w) = Inr \<lparr>allowed = False, remaining = 20\<rparr>
             \<and> fst (checkSpendingAllowed wid 15 w) = Inr \<lparr>allowed = True, remaining = 20\<rparr>"
    by (simp add: checkSpendingAllowed_summary[OF assms] effective_limit_def effective_used_def
        double_sub_def binary64_20)
qed

lemma demo_effective:
  "effective_limit (Suc 0) demo = 100" "effective_used (Suc 0) demo = 80" "faults demo = [] \<and> tx_begin demo = None"
  by (simp_all add: demo_def effective_limit_def effective_used_def SELECT_spending_limit_def
      queryOne_Cons)

text \<open>
  The scenario of claim C6: with cap 100 and 80 spent, a check of 25 is refused and a check
  of 15 is allowed, each with 20 remaining.
\<close>

theorem check_remaining_witness:
  "faults demo = [] \<and> tx_begin demo = None
   \<and> fst (checkSpendingAllowed 1 25 demo) = Inr \<lparr>allowed = False, remaining = 20\<rparr>
   \<and> fst (checkSpendingAllowed 1 15 demo) = Inr \<lparr>allowed = True, remaining = 20\<rparr>"
proof -
  have f: "faults demo = [] \<and> tx_begin demo = None" by (simp add: demo_def)
  have s: "SELECT_spending_limit 1 (store demo) =
             Some \<lparr>sl_id = 1, wallet_id = 1, daily_limit = 100, used_today = 80,
                   reset_date = ''2024-01-02'', sl_created_at = 0, updated_at = 0\<rparr>"
    "today demo = ''2024-01-02''"
    by (simp_all add: demo_def SELECT_spending_limit_def queryOne_Cons)
  from check_remaining[OF f, of 1 25] s
  have "fst (checkSpendingAllowed 1 25 demo) = Inr \<lparr>allowed = False, remaining = 20\<rparr>
      \<and> fst (checkSpendingAllowed 1 15 demo) = Inr \<lparr>allowed = True, remaining = 20\<rparr>"
    by simp
  with f show ?thesis by simp
qed





lemma demo_rounding_facts:
  "faults demo_rounding = [] \<and> tx_begin demo_rounding = None"
  "effective_limit (Suc 0) demo_rounding = 100"
  "effective_used (Suc 0) demo_rounding = 1155454779397243 / 140737488355328"
  by (simp_all add: demo_rounding_def demo_def effective_limit_def effective_used_def
      SELECT_spending_limit_def queryOne_Cons binary64_8_21)

lemma demo_unused_facts:
  "faults demo_unused = [] \<and> tx_begin demo_unused = None"
  "effective_limit (Suc 0) demo_unused = 100"
  "effective_used (Suc 0) demo_unused = 0"
  by (simp_all add: demo_unused_def demo_def effective_limit_def effective_used_def
      SELECT_spending_limit_def queryOne_Cons)

text \<open>
  Claim C10, as stated, fails in the code's arithmetic. With cap 100 and 8.21 spent the
  check reports 91.78999999999999 remaining; recording 91.79, which is more than that,
  leaves \<open>used_today\<close> at exactly 100, not above the cap, and the next check reports 0
  remaining, not a negative number.
\<close>

theorem record_reaches_cap_counterexample:
  "fst (checkSpendingAllowed 1 0 demo_rounding) =
     Inr \<lparr>allowed = True, remaining = 3229573514033889 / 35184372088832\<rparr>
   \<and> 3229573514033889 / 35184372088832 < binary64 (9179 / 100)
   \<and> (\<exists>l w'. recordSpending 1 (binary64 (9179 / 100)) demo_rounding = (Inr (Some l), w')
         \<and> daily_limit l = 100 \<and> used_today l = 100
         \<and> fst (checkSpendingAllowed 1 0 w') = Inr \<lparr>allowed = True, remaining = 0\<rparr>)"
proof -
  note f = demo_rounding_facts(1)
  have c: "fst (checkSpendingAllowed 1 0 demo_rounding) =
     Inr \<lparr>allowed = True, remaining = 3229573514033889 / 35184372088832\<rparr>"
    by (simp add: checkSpendingAllowed_summary[OF f] demo_rounding_facts double_sub_def
        binary64_values)
  have lt: "3229573514033889 / 35184372088832 < binary64 (9179 / 100)"
    by (simp add: binary64_91_79)
  from recordSpending_summary[OF f, of 1 "binary64 (9179 / 100)"] obtain l d where
    r: "recordSpending 1 (binary64 (9179 / 100)) demo_rounding
          = (Inr (Some l), demo_rounding\<lparr>store := d\<rparr>)"
    and sel: "SELECT_spending_limit 1 d = Some l"
    and props: "daily_limit l = effective_limit 1 demo_rounding"
      "used_today l = double_add (effective_used 1 demo_rounding) (binary64 (9179 / 100))"
      "reset_date l = today demo_rounding"
    by blast
  have dl: "daily_limit l = 100" using props(1) by (simp add: demo_rounding_facts)
  have ut: "used_today l = 100"
    using props(2) by (simp add: demo_rounding_facts double_add_def binary64_values)
  let ?w = "demo_rounding\<lparr>store := d\<rparr>"
  have f': "faults ?w = [] \<and> tx_begin ?w = None" using f by simp
  have eff: "effective_limit 1 ?w = 100" "effective_used 1 ?w = 100"
    using sel props(3) dl ut by (simp_all add: effective_limit_def effective_used_def)
  have c': "fst (checkSpendingAllowed 1 0 ?w) = Inr \<lparr>allowed = True, remaining = 0\<rparr>"
    using eff by (simp add: checkSpendingAllowed_summary[OF f'] double_sub_def binary64_def)
  from r dl ut c' have "\<exists>l w'. recordSpending 1 (binary64 (9179 / 100)) demo_rounding
          = (Inr (Some l), w')
         \<and> daily_limit l = 100 \<and> used_today l = 100
         \<and> fst (checkSpendingAllowed 1 0 w') = Inr \<lparr>allowed = True, remaining = 0\<rparr>"
    by blast
  with c lt show ?thesis by blast
qed

text \<open>
  Claim C10, amended. Called with no transaction open and no statement raising,
  \<open>recordSpending\<close> succeeds for every amount and adds it to the rolled-over counter, in
  binary64, without looking at the cap. An
  amount (a binary64 value, as the cap is) above the remaining quota that a check reports
  leaves \<open>used_today\<close> at the cap or above it, and the next check reports a \<open>remaining\<close> that
  is zero or negative.
\<close>

theorem recordSpending_unconditional:
  assumes "faults w = [] \<and> tx_begin w = None"
  shows "\<exists>l w'. recordSpending wid amt w = (Inr (Some l), w')
         \<and> SELECT_spending_limit wid (store w') = Some l
         \<and> used_today l = double_add (effective_used wid w) amt
         \<and> daily_limit l = effective_limit wid w
         \<and> (\<forall>a. fst (checkSpendingAllowed wid a w') =
               Inr \<lparr>allowed = (a \<le> double_sub (daily_limit l) (used_today l)),
                    remaining = double_sub (daily_limit l) (used_today l)\<rparr>)
         \<and> (binary64 amt = amt \<and> binary64 (effective_limit wid w) = effective_limit wid w
             \<and> double_sub (effective_limit wid w) (effective_used wid w) < amt \<longrightarrow>
               daily_limit l \<le> used_today l
               \<and> double_sub (daily_limit l) (used_today l) \<le> 0)"
proof -
  from recordSpending_summary[OF assms, of wid amt] obtain l d where
    r: "recordSpending wid amt w = (Inr (Some l), w\<lparr>store := d\<rparr>)"
    and sel: "SELECT_spending_limit wid d = Some l"
    and props: "daily_limit l = effective_limit wid w"
      "used_today l = double_add (effective_used wid w) amt" "reset_date l = today w"
    by blast
  let ?w = "w\<lparr>store := d\<rparr>"
  let ?L = "effective_limit wid w" and ?u = "effective_used wid w"
  have f: "faults ?w = [] \<and> tx_begin ?w = None" using assms by simp
  have eff: "effective_limit wid ?w = daily_limit l \<and> effective_used wid ?w = used_today l"
    by (rule effective_of_row) (use sel props in simp_all)
  have chk: "fst (checkSpendingAllowed wid a ?w) =
               Inr \<lparr>allowed = (a \<le> double_sub (daily_limit l) (used_today l)),
                    remaining = double_sub (daily_limit l) (used_today l)\<rparr>" for a
    using checkSpendingAllowed_summary[OF f, of wid a] eff by simp
  have over: "binary64 amt = amt \<and> binary64 ?L = ?L \<and> double_sub ?L ?u < amt \<longrightarrow>
               daily_limit l \<le> used_today l
               \<and> double_sub (daily_limit l) (used_today l) \<le> 0"
  proof (intro impI)
    assume h: "binary64 amt = amt \<and> binary64 ?L = ?L \<and> double_sub ?L ?u < amt"
    have "?L - ?u < amt"
    proof (rule ccontr)
      assume "\<not> ?L - ?u < amt"
      then have "amt \<le> ?L - ?u" by simp
      then have "binary64 amt \<le> binary64 (?L - ?u)" by (rule binary64_mono)
      with h show False by (simp add: double_sub_def)
    qed
    then have "?L \<le> ?u + amt" by simp
    then have "binary64 ?L \<le> binary64 (?u + amt)" by (rule binary64_mono)
    with h have ge: "daily_limit l \<le> used_today l"
      using props by (simp add: double_add_def)
    then have "binary64 (daily_limit l - used_today l) \<le> 0"
      by (intro binary64_nonpos) simp
    with ge show "daily_limit l \<le> used_today l
               \<and> double_sub (daily_limit l) (used_today l) \<le> 0"
      by (simp add: double_sub_def)
  qed
  have "SELECT_spending_limit wid (store ?w) = Some l" using sel by simp
  with r props chk over show ?thesis by blast
qed

theorem recordSpending_unconditional_witness:
  "faults demo = [] \<and> tx_begin demo = None
   \<and> binary64 50 = 50 \<and> binary64 (effective_limit 1 demo) = effective_limit 1 demo
   \<and> double_sub (effective_limit 1 demo) (effective_used 1 demo) < 50
   \<and> (\<exists>l w'. recordSpending 1 50 demo = (Inr (Some l), w') \<and> used_today l = 130
         \<and> daily_limit l = 100
         \<and> fst (checkSpendingAllowed 1 1 w') = Inr \<lparr>allowed = False, remaining = - 30\<rparr>)"
proof -
  have f: "faults demo = [] \<and> tx_begin demo = None" by (simp add: demo_def)
  have h: "binary64 50 = 50" "binary64 (effective_limit 1 demo) = effective_limit 1 demo"
    "double_sub (effective_limit 1 demo) (effective_used 1 demo) < 50"
    by (simp_all add: demo_effective double_sub_def binary64_values)
  from recordSpending_unconditional[OF f, of 1 50] obtain l w' where
    r: "recordSpending 1 50 demo = (Inr (Some l), w')"
    and u: "used_today l = double_add (effective_used 1 demo) 50"
    and d: "daily_limit l = effective_limit 1 demo"
    and c: "\<forall>a. fst (checkSpendingAllowed 1 a w') =
               Inr \<lparr>allowed = (a \<le> double_sub (daily_limit l) (used_today l)),
                    remaining = double_sub (daily_limit l) (used_today l)\<rparr>"
    by blast
  have u': "used_today l = 130" using u by (simp add: demo_effective double_add_def binary64_values)
  have d': "daily_limit l = 100" using d by (simp add: demo_effective)
  have "fst (checkSpendingAllowed 1 1 w') = Inr \<lparr>allowed = False, remaining = - 30\<rparr>"
    using c by (simp add: u' d' double_sub_def binary64_values)
  with r u' d' have "\<exists>l w'. recordSpending 1 50 demo = (Inr (Some l), w') \<and> used_today l = 130
         \<and> daily_limit l = 100
         \<and> fst (checkSpendingAllowed 1 1 w') = Inr \<lparr>allowed = False, remaining = - 30\<rparr>"
    by blast
  with f h show ?thesis by blast
qed

lemma record_all_summary:
  "faults w = [] \<and> tx_begin w = None \<Longrightarrow>
   \<exists>d. record_all wid as w = (Inr (), w\<lparr>store := d\<rparr>)
      \<and> effective_used wid (w\<lparr>store := d\<rparr>) = foldl double_add (effective_used wid w) as
      \<and> effective_limit wid (w\<lparr>store := d\<rparr>) = effective_limit wid w
      \<and> (as \<noteq> [] \<longrightarrow> (\<exists>l. SELECT_spending_limit wid d = Some l \<and> reset_date l = today w
            \<and> used_today l = foldl double_add (effective_used wid w) as))"
proof (induction as arbitrary: w)
  case Nil
  have "record_all wid [] w = (Inr (), w\<lparr>store := store w\<rparr>)" by (simp add: ret_def)
  moreover have
    "effective_used wid (w\<lparr>store := store w\<rparr>) = foldl double_add (effective_used wid w) []"
    "effective_limit wid (w\<lparr>store := store w\<rparr>) = effective_limit wid w" by simp_all
  ultimately show ?case by blast
next
  case (Cons a as)
  from recordSpending_summary[OF Cons.prems, of wid a] obtain l d where
    r: "recordSpending wid a w = (Inr (Some l), w\<lparr>store := d\<rparr>)"
    and sel: "SELECT_spending_limit wid d = Some l"
    and props: "daily_limit l = effective_limit wid w"
      "used_today l = double_add (effective_used wid w) a" "reset_date l = today w"
    by blast
  let ?w = "w\<lparr>store := d\<rparr>"
  have f: "faults ?w = [] \<and> tx_begin ?w = None" using Cons.prems by simp
  have eff: "effective_limit wid ?w = daily_limit l \<and> effective_used wid ?w = used_today l"
    by (rule effective_of_row) (use sel props in simp_all)
  from Cons.IH[OF f] obtain d' where
    ra: "record_all wid as ?w = (Inr (), ?w\<lparr>store := d'\<rparr>)"
    and u: "effective_used wid (?w\<lparr>store := d'\<rparr>) = foldl double_add (effective_used wid ?w) as"
    and c: "effective_limit wid (?w\<lparr>store := d'\<rparr>) = effective_limit wid ?w"
    and row: "as \<noteq> [] \<longrightarrow> (\<exists>l. SELECT_spending_limit wid d' = Some l \<and> reset_date l = today ?w
            \<and> used_today l = foldl double_add (effective_used wid ?w) as)"
    by blast
  have 1: "record_all wid (a # as) w = (Inr (), w\<lparr>store := d'\<rparr>)"
    using r ra by (simp add: andThen_def)
  have 2: "effective_used wid (w\<lparr>store := d'\<rparr>) = foldl double_add (effective_used wid w) (a # as)"
    using u eff props by simp
  have 3: "effective_limit wid (w\<lparr>store := d'\<rparr>) = effective_limit wid w"
    using c eff props by simp
  have 4: "\<exists>l. SELECT_spending_limit wid d' = Some l \<and> reset_date l = today w
            \<and> used_today l = foldl double_add (effective_used wid w) (a # as)"
  proof (cases "as = []")
    case True
    then have "d' = d" using ra by (simp add: ret_def) (metis world.select_convs(1) world.surjective world.update_convs(1))
    with sel props True show ?thesis by simp
  next
    case False
    with row eff props show ?thesis by auto
  qed
  from 1 2 3 4 show ?case by blast
qed

text \<open>
  Claim C7, as stated, fails in the code's arithmetic. Recording 0.1 and then 0.2 on an
  unused wallet stores 0.30000000000000004, which is neither the exact sum of the two
  amounts nor the number 0.3. And with cap 100 and 8.21 spent a check of 91.79 is refused,
  although 8.21 + 91.79 is 100 both in decimal and in binary64.
\<close>

theorem record_sum_rounding_counterexample:
  "(\<exists>l w'. record_all 1 [binary64 (1 / 10), binary64 (1 / 5)] demo_unused = (Inr (), w')
      \<and> SELECT_spending_limit 1 (store w') = Some l
      \<and> used_today l = 1351079888211149 / 4503599627370496
      \<and> used_today l \<noteq> 0 + (binary64 (1 / 10) + binary64 (1 / 5))
      \<and> used_today l \<noteq> binary64 (3 / 10))
   \<and> fst (checkSpendingAllowed 1 (binary64 (9179 / 100)) demo_rounding) =
       Inr \<lparr>allowed = False, remaining = 3229573514033889 / 35184372088832\<rparr>
   \<and> double_add (binary64 (821 / 100)) (binary64 (9179 / 100)) \<le> 100
   \<and> (821 / 100 + 9179 / 100 :: real) \<le> 100"
proof -
  note f = demo_unused_facts(1)
  from record_all_summary[OF f, of 1 "[binary64 (1 / 10), binary64 (1 / 5)]"] obtain d where
    ra: "record_all 1 [binary64 (1 / 10), binary64 (1 / 5)] demo_unused
           = (Inr (), demo_unused\<lparr>store := d\<rparr>)"
    and row: "\<exists>l. SELECT_spending_limit 1 d = Some l
            \<and> used_today l = foldl double_add (effective_used 1 demo_unused)
                 [binary64 (1 / 10), binary64 (1 / 5)]"
    by auto
  then obtain l where sel: "SELECT_spending_limit 1 d = Some l"
    and u: "used_today l = foldl double_add (effective_used 1 demo_unused)
                 [binary64 (1 / 10), binary64 (1 / 5)]"
    by blast
  have v: "used_today l = 1351079888211149 / 4503599627370496"
    using u by (simp add: demo_unused_facts double_add_def binary64_values)
  have n1: "used_today l \<noteq> 0 + (binary64 (1 / 10) + binary64 (1 / 5))"
    by (simp add: v binary64_values)
  have n2: "used_today l \<noteq> binary64 (3 / 10)"
    by (simp add: v binary64_values)
  have a: "\<exists>l w'. record_all 1 [binary64 (1 / 10), binary64 (1 / 5)] demo_unused = (Inr (), w')
      \<and> SELECT_spending_limit 1 (store w') = Some l
      \<and> used_today l = 1351079888211149 / 4503599627370496
      \<and> used_today l \<noteq> 0 + (binary64 (1 / 10) + binary64 (1 / 5))
      \<and> used_today l \<noteq> binary64 (3 / 10)"
    using ra sel v n1 n2 by (intro exI[of _ l] exI[of _ "demo_unused\<lparr>store := d\<rparr>"]) simp
  have b: "fst (checkSpendingAllowed 1 (binary64 (9179 / 100)) demo_rounding) =
       Inr \<lparr>allowed = False, remaining = 3229573514033889 / 35184372088832\<rparr>"
    by (simp add: checkSpendingAllowed_summary[OF demo_rounding_facts(1)] demo_rounding_facts
        double_sub_def binary64_values)
  have c: "double_add (binary64 (821 / 100)) (binary64 (9179 / 100)) \<le> 100"
    by (simp add: double_add_def binary64_values)
  have e: "(821 / 100 + 9179 / 100 :: real) \<le> 100" by simp
  from a b c e show ?thesis by blast
qed

text \<open>
  Claim C7, amended. Recording the amounts \<open>as\<close> one after the other on the same day
  (no transaction open, no statement raising) leaves
  \<open>used_today\<close> at its initial (rolled-over) value with the amounts added to it in that
  order in binary64, each addition rounded; a check that follows reports \<open>remaining\<close> as
  the cap minus that value, in binary64, and allows a new amount exactly when it is at
  most that \<open>remaining\<close>.
\<close>

theorem record_all_sum:
  assumes "faults w = [] \<and> tx_begin w = None"
  shows "\<exists>w'. record_all wid as w = (Inr (), w') \<and> today w' = today w
    \<and> effective_used wid w' = foldl double_add (effective_used wid w) as
    \<and> effective_limit wid w' = effective_limit wid w
    \<and> (as \<noteq> [] \<longrightarrow> (\<exists>l. SELECT_spending_limit wid (store w') = Some l
          \<and> reset_date l = today w
          \<and> used_today l = foldl double_add (effective_used wid w) as
          \<and> daily_limit l = effective_limit wid w))
    \<and> (\<forall>new. fst (checkSpendingAllowed wid new w') =
          Inr \<lparr>allowed = (new \<le> double_sub (effective_limit wid w)
                                   (foldl double_add (effective_used wid w) as)),
               remaining = double_sub (effective_limit wid w)
                                   (foldl double_add (effective_used wid w) as)\<rparr>)
    \<and> (\<forall>l0. SELECT_spending_limit wid (store w) = Some l0 \<and> reset_date l0 = today w \<longrightarrow>
          effective_used wid w = used_today l0 \<and> effective_limit wid w = daily_limit l0)"
proof -
  from record_all_summary[OF assms, of wid as] obtain d where
    ra: "record_all wid as w = (Inr (), w\<lparr>store := d\<rparr>)"
    and u: "effective_used wid (w\<lparr>store := d\<rparr>) = foldl double_add (effective_used wid w) as"
    and c: "effective_limit wid (w\<lparr>store := d\<rparr>) = effective_limit wid w"
    and row: "as \<noteq> [] \<longrightarrow> (\<exists>l. SELECT_spending_limit wid d = Some l \<and> reset_date l = today w
            \<and> used_today l = foldl double_add (effective_used wid w) as)"
    by blast
  let ?w = "w\<lparr>store := d\<rparr>"
  have f: "faults ?w = [] \<and> tx_begin ?w = None" using assms by simp
  have t: "today ?w = today w" by simp
  have row': "as \<noteq> [] \<longrightarrow> (\<exists>l. SELECT_spending_limit wid (store ?w) = Some l
          \<and> reset_date l = today w
          \<and> used_today l = foldl double_add (effective_used wid w) as
          \<and> daily_limit l = effective_limit wid w)"
    using row c by (auto simp: effective_limit_def)
  have chk: "fst (checkSpendingAllowed wid new ?w) =
          Inr \<lparr>allowed = (new \<le> double_sub (effective_limit wid w)
                                   (foldl double_add (effective_used wid w) as)),
               remaining = double_sub (effective_limit wid w)
                                   (foldl double_add (effective_used wid w) as)\<rparr>" for new
    using checkSpendingAllowed_summary[OF f, of wid new] u c by simp
  have init: "\<forall>l0. SELECT_spending_limit wid (store w) = Some l0 \<and> reset_date l0 = today w \<longrightarrow>
          effective_used wid w = used_today l0 \<and> effective_limit wid w = daily_limit l0"
    by (simp add: effective_of_row)
  from ra t u c row' chk init show ?thesis by blast
qed

theorem record_all_sum_witness:
  "faults demo = [] \<and> tx_begin demo = None \<and> [5, 10] \<noteq> ([] :: real list)
   \<and> SELECT_spending_limit 1 (store demo) \<noteq> None
   \<and> (\<exists>w'. record_all 1 [5, 10] demo = (Inr (), w')
         \<and> (\<exists>l. SELECT_spending_limit 1 (store w') = Some l \<and> used_today l = 95)
         \<and> fst (checkSpendingAllowed 1 5 w') = Inr \<lparr>allowed = True, remaining = 5\<rparr>
         \<and> fst (checkSpendingAllowed 1 6 w') = Inr \<lparr>allowed = False, remaining = 5\<rparr>)"
proof -
  have f: "faults demo = [] \<and> tx_begin demo = None" by (simp add: demo_def)
  have s: "SELECT_spending_limit 1 (store demo) \<noteq> None"
    by (simp add: demo_def SELECT_spending_limit_def queryOne_Cons)
  show ?thesis
    using f s record_all_sum[OF f, of 1 "[5, 10]"]
    by (auto simp: demo_effective double_add_def double_sub_def binary64_values)
qed

section \<open>Transaction ledger and withdrawal sub-ledger\<close>

lemma SELECT_after_status:
  "SELECT_transaction i (UPDATE_transaction_status ts st sig err i d) =
     map_option (\<lambda>r. if st = Confirmed
                then r\<lparr>status := st, tx_signature := COALESCE sig (tx_signature r),
                       error_message := err, confirmed_at := Some ts\<rparr>
                else r\<lparr>status := st, tx_signature := COALESCE sig (tx_signature r),
                       error_message := err\<rparr>)
       (SELECT_transaction i d)"
  by (simp add: SELECT_transaction_def UPDATE_transaction_status_def queryOne_UPDATE_where)

lemma SELECT_after_completed:
  "SELECT_withdrawal_request i (UPDATE_withdrawal_completed ts i d) =
     map_option (\<lambda>r. r\<lparr>wr_status := WCompleted, completed_at := Some ts\<rparr>)
       (SELECT_withdrawal_request i d)"
  by (simp add: SELECT_withdrawal_request_def UPDATE_withdrawal_completed_def queryOne_UPDATE_where)

lemma updateTransactionStatus_ok:
  "faults w = [] \<and> tx_begin w = None \<Longrightarrow>
   updateTransactionStatus i st opts w =
     (Inr (SELECT_transaction i (UPDATE_transaction_status (now w) st
             (str_or_null (so_txSignature opts)) (str_or_null (errorMessage opts)) i (store w))),
      w\<lparr>store := UPDATE_transaction_status (now w) st
             (str_or_null (so_txSignature opts)) (str_or_null (errorMessage opts)) i (store w)\<rparr>)"
  by (simp add: updateTransactionStatus_def andThen_def execute_ok select_def)

lemma completeWithdrawal_ok:
  "faults w = [] \<and> tx_begin w = None \<Longrightarrow>
   completeWithdrawal i w =
     (Inr (SELECT_withdrawal_request i (UPDATE_withdrawal_completed (now w) i (store w))),
      w\<lparr>store := UPDATE_withdrawal_completed (now w) i (store w)\<rparr>)"
  by (simp add: completeWithdrawal_def andThen_def execute_ok select_def)

text \<open>
  Claim C2, as stated, fails: \<open>updateTransactionStatus\<close> on a confirmed transaction stores
  \<open>failed\<close>, and \<open>completeWithdrawal\<close> on a failed request stores \<open>completed\<close>.
\<close>

theorem status_overwritten_counterexample:
  "map_option status (SELECT_transaction 1 (store ledger_demo)) = Some Confirmed
   \<and> map_option status (SELECT_transaction 1 (store (snd
        (updateTransactionStatus 1 Failed \<lparr>so_txSignature = None, errorMessage = Some ''late''\<rparr>
           ledger_demo)))) = Some Failed
   \<and> map_option wr_status (SELECT_withdrawal_request 1 (store ledger_demo)) = Some WFailed
   \<and> map_option wr_status (SELECT_withdrawal_request 1 (store (snd
        (completeWithdrawal 1 ledger_demo)))) = Some WCompleted"
proof -
  have f: "faults ledger_demo = [] \<and> tx_begin ledger_demo = None" by (simp add: ledger_demo_def)
  have a: "map_option status (SELECT_transaction 1 (store ledger_demo)) = Some Confirmed"
    by (simp add: ledger_demo_def SELECT_transaction_def queryOne_Cons)
  have b: "map_option wr_status (SELECT_withdrawal_request 1 (store ledger_demo)) = Some WFailed"
    by (simp add: ledger_demo_def SELECT_withdrawal_request_def queryOne_Cons)
  from a obtain r where r: "SELECT_transaction 1 (store ledger_demo) = Some r" by auto
  from b obtain q where q: "SELECT_withdrawal_request 1 (store ledger_demo) = Some q" by auto
  show ?thesis
    using a b r q by (simp add: updateTransactionStatus_ok[OF f] completeWithdrawal_ok[OF f]
        SELECT_after_status SELECT_after_completed)
qed

text \<open>
  Claim C2, amended. Neither operation looks at the current status: with no transaction
  open and no statement raising, \<open>updateTransactionStatus\<close> leaves the row with the requested status and
  \<open>completeWithdrawal\<close> leaves the request \<open>completed\<close>, whatever the status was, and each
  returns the row as stored.
\<close>

theorem transition_overwrites:
  assumes "faults w = [] \<and> tx_begin w = None"
  shows "map_option status (SELECT_transaction i (store (snd (updateTransactionStatus i st opts w))))
           = map_option (\<lambda>r. st) (SELECT_transaction i (store w))
       \<and> fst (updateTransactionStatus i st opts w) =
           Inr (SELECT_transaction i (store (snd (updateTransactionStatus i st opts w))))
       \<and> map_option wr_status
             (SELECT_withdrawal_request q (store (snd (completeWithdrawal q w))))
           = map_option (\<lambda>r. WCompleted) (SELECT_withdrawal_request q (store w))
       \<and> fst (completeWithdrawal q w) =
           Inr (SELECT_withdrawal_request q (store (snd (completeWithdrawal q w))))"
  by (cases "st = Confirmed")
    (simp_all add: updateTransactionStatus_ok[OF assms] completeWithdrawal_ok[OF assms]
      SELECT_after_status SELECT_after_completed option.map_comp comp_def)

theorem transition_overwrites_witness:
  "faults ledger_demo = [] \<and> tx_begin ledger_demo = None
   \<and> map_option status (SELECT_transaction 1 (store (snd
        (updateTransactionStatus 1 Pending \<lparr>so_txSignature = None, errorMessage = None\<rparr>
           ledger_demo)))) = Some Pending
   \<and> map_option wr_status (SELECT_withdrawal_request 1 (store (snd
        (completeWithdrawal 1 ledger_demo)))) = Some WCompleted"
proof -
  have f: "faults ledger_demo = [] \<and> tx_begin ledger_demo = None" by (simp add: ledger_demo_def)
  have a: "SELECT_transaction 1 (store ledger_demo) \<noteq> None"
    by (simp add: ledger_demo_def SELECT_transaction_def queryOne_Cons)
  have b: "SELECT_withdrawal_request 1 (store ledger_demo) \<noteq> None"
    by (simp add: ledger_demo_def SELECT_withdrawal_request_def queryOne_Cons)
  show ?thesis
    using f a b
      transition_overwrites[OF f, of 1 Pending "\<lparr>so_txSignature = None, errorMessage = None\<rparr>" 1]
    by auto
qed


text \<open>
  Claim C4, as stated, fails: a transaction that already carries reference \<open>sigA\<close> carries
  \<open>sigB\<close> after a transition that provides \<open>sigB\<close>.
\<close>

theorem reference_overwritten_counterexample:
  "map_option tx_signature (SELECT_transaction 1 (store ledger_demo)) = Some (Some ''sigA'')
   \<and> map_option tx_signature (SELECT_transaction 1 (store (snd
        (updateTransactionStatus 1 Confirmed
           \<lparr>so_txSignature = Some ''sigB'', errorMessage = None\<rparr> ledger_demo))))
       = Some (Some ''sigB'')"
proof -
  have f: "faults ledger_demo = [] \<and> tx_begin ledger_demo = None" by (simp add: ledger_demo_def)
  have a: "map_option tx_signature (SELECT_transaction 1 (store ledger_demo)) = Some (Some ''sigA'')"
    by (simp add: ledger_demo_def SELECT_transaction_def queryOne_Cons)
  then obtain r where r: "SELECT_transaction 1 (store ledger_demo) = Some r" by auto
  show ?thesis
    using a r by (simp add: updateTransactionStatus_ok[OF f] SELECT_after_status
        COALESCE_def str_or_null_def)
qed

text \<open>
  Claim C4, amended (no transaction open, no statement raising).
  \<open>COALESCE(?, tx_signature)\<close> prefers the bound parameter: a provided,
  non-empty reference replaces the stored one whether or not one was set, and the stored
  reference is kept only when the call provides none or an empty one.
\<close>

theorem reference_last_writer:
  assumes "faults w = [] \<and> tx_begin w = None" and "SELECT_transaction i (store w) = Some r"
  shows "map_option tx_signature
           (SELECT_transaction i (store (snd (updateTransactionStatus i st opts w))))
         = Some (case so_txSignature opts of
                   Some s \<Rightarrow> if s = [] then tx_signature r else Some s
                 | None \<Rightarrow> tx_signature r)"
  using assms(2)
  by (cases "st = Confirmed")
    (simp_all add: updateTransactionStatus_ok[OF assms(1)] SELECT_after_status
      COALESCE_def str_or_null_def split: option.splits)

theorem reference_last_writer_witness:
  "faults ledger_demo = [] \<and> tx_begin ledger_demo = None \<and> SELECT_transaction 1 (store ledger_demo) \<noteq> None
   \<and> map_option tx_signature (SELECT_transaction 1 (store (snd
        (updateTransactionStatus 1 Failed
           \<lparr>so_txSignature = Some ''sigC'', errorMessage = None\<rparr> ledger_demo))))
       = Some (Some ''sigC'')
   \<and> map_option tx_signature (SELECT_transaction 1 (store (snd
        (updateTransactionStatus 1 Failed
           \<lparr>so_txSignature = None, errorMessage = None\<rparr> ledger_demo))))
       = Some (Some ''sigA'')"
proof -
  let ?r = "\<lparr>tx_id = 1, from_wallet_id = 1, to_wallet_id = Some 2,
         to_external_address = None, amount = 50, token = ''USDC'', fee = 1 / 2,
         tx_signature = Some ''sigA'', tx_type = TxTransfer, status = Confirmed,
         error_message = None, created_at = 3, confirmed_at = Some 4\<rparr>"
  have f: "faults ledger_demo = [] \<and> tx_begin ledger_demo = None" by (simp add: ledger_demo_def)
  have a: "SELECT_transaction 1 (store ledger_demo) = Some ?r"
    by (simp add: ledger_demo_def SELECT_transaction_def queryOne_Cons)
  show ?thesis
    using f a
      reference_last_writer[OF f a, of Failed "\<lparr>so_txSignature = Some ''sigC'', errorMessage = None\<rparr>"]
      reference_last_writer[OF f a, of Failed "\<lparr>so_txSignature = None, errorMessage = None\<rparr>"]
    by simp
qed

lemma filter_UPDATE_where_others:
  "filter (\<lambda>r. \<not> P r) (UPDATE_where P f rows) = filter (\<lambda>r. \<not> P r) rows"
  if "\<And>r. P r \<Longrightarrow> P (f r)"
  using that by (induction rows) (simp_all add: UPDATE_where_def)

lemma getOrCreate_frame:
  "tx_begin w = None \<Longrightarrow>
   transactions (store (snd (getOrCreateSpendingLimit wid w))) = transactions (store w)
   \<and> withdrawal_requests (store (snd (getOrCreateSpendingLimit wid w))) = withdrawal_requests (store w)
   \<and> wallets (store (snd (getOrCreateSpendingLimit wid w))) = wallets (store w)
   \<and> filter (\<lambda>r. \<not> wallet_id r = wid) (spending_limits (store (snd (getOrCreateSpendingLimit wid w))))
       = filter (\<lambda>r. \<not> wallet_id r = wid) (spending_limits (store w))"
  by (simp add: getOrCreateSpendingLimit_def andThen_def execute_def run_def saveDb_def
      select_def ret_def UPDATE_spending_limits_reset_def INSERT_spending_limit_def Let_def
      filter_UPDATE_where_others
      split: option.splits list.splits)

lemma check_world: "snd (checkSpendingAllowed wid amt w) = snd (getOrCreateSpendingLimit wid w)"
  by (simp add: checkSpendingAllowed_def andThen_def ret_def throw_def Let_def
      split: prod.splits sum.splits option.splits)

text \<open>
  Claim C9, as stated, fails: a check on a wallet whose row is stale rewrites the row, and a
  check on a wallet without a row inserts one.
\<close>

theorem check_mutates_counterexample:
  "spending_limits (store demo_next_day) =
     [\<lparr>sl_id = 1, wallet_id = 1, daily_limit = 100, used_today = 80,
       reset_date = ''2024-01-02'', sl_created_at = 0, updated_at = 0\<rparr>]
   \<and> spending_limits (store (snd (checkSpendingAllowed 1 25 demo_next_day))) =
     [\<lparr>sl_id = 1, wallet_id = 1, daily_limit = 100, used_today = 0,
       reset_date = ''2024-01-03'', sl_created_at = 0, updated_at = 5\<rparr>]
   \<and> spending_limits (store (snd (checkSpendingAllowed 2 25 demo))) =
     spending_limits (store demo) @
     [\<lparr>sl_id = 2, wallet_id = 2, daily_limit = 1000, used_today = 0,
       reset_date = ''2024-01-02'', sl_created_at = 5, updated_at = 5\<rparr>]"
  by (simp add: check_world demo_next_day_def demo_def getOrCreateSpendingLimit_def
      SELECT_spending_limit_def queryOne_Cons queryOne_Nil andThen_def execute_def run_def
      saveDb_def select_def UPDATE_spending_limits_reset_def UPDATE_where_def
      INSERT_spending_limit_def next_rowid_def)

text \<open>
  Claim C9, amended. Called with no transaction open, \<open>checkSpendingAllowed\<close> makes one
  write at most, the one \<open>getOrCreateSpendingLimit\<close> makes: transactions, withdrawal
  requests, wallets and the limit rows of other wallets are as before; the whole world is
  as before when the wallet's row carries today's date; a stale row is reset and an absent
  row is created.
\<close>

theorem check_writes_only_rollover:
  assumes "tx_begin w = None"
  shows "snd (checkSpendingAllowed wid amt w) = snd (getOrCreateSpendingLimit wid w)
   \<and> transactions (store (snd (checkSpendingAllowed wid amt w))) = transactions (store w)
   \<and> withdrawal_requests (store (snd (checkSpendingAllowed wid amt w))) = withdrawal_requests (store w)
   \<and> wallets (store (snd (checkSpendingAllowed wid amt w))) = wallets (store w)
   \<and> filter (\<lambda>r. \<not> wallet_id r = wid) (spending_limits (store (snd (checkSpendingAllowed wid amt w))))
       = filter (\<lambda>r. \<not> wallet_id r = wid) (spending_limits (store w))
   \<and> (\<forall>l. SELECT_spending_limit wid (store w) = Some l \<and> reset_date l = today w \<longrightarrow>
         snd (checkSpendingAllowed wid amt w) = w)
   \<and> (\<forall>l. faults w = [] \<and> SELECT_spending_limit wid (store w) = Some l \<and> reset_date l \<noteq> today w \<longrightarrow>
         store (snd (checkSpendingAllowed wid amt w)) =
           UPDATE_spending_limits_reset (today w) (now w) wid (store w))
   \<and> (faults w = [] \<and> SELECT_spending_limit wid (store w) = None \<longrightarrow>
         store (snd (checkSpendingAllowed wid amt w)) =
           INSERT_spending_limit wid (default_daily_limit w) (today w) (now w) (store w))"
  using assms
  by (simp add: check_world getOrCreate_frame getOrCreate_current getOrCreate_stale
      getOrCreate_absent)

theorem check_writes_only_rollover_witness:
  "tx_begin demo = None \<and> tx_begin demo_next_day = None
   \<and> SELECT_spending_limit 1 (store demo) \<noteq> None
   \<and> snd (checkSpendingAllowed 1 25 demo) = demo
   \<and> faults demo_next_day = []
   \<and> store (snd (checkSpendingAllowed 1 25 demo_next_day)) =
       UPDATE_spending_limits_reset ''2024-01-03'' 5 1 (store demo_next_day)
   \<and> SELECT_spending_limit 2 (store demo) = None
   \<and> store (snd (checkSpendingAllowed 2 25 demo)) =
       INSERT_spending_limit 2 1000 ''2024-01-02'' 5 (store demo)"
proof -
  let ?l = "\<lparr>sl_id = 1, wallet_id = 1, daily_limit = 100, used_today = 80,
              reset_date = ''2024-01-02'', sl_created_at = 0, updated_at = 0\<rparr>"
  have t: "tx_begin demo = None" "tx_begin demo_next_day = None"
    by (simp_all add: demo_next_day_def demo_def)
  have a: "SELECT_spending_limit 1 (store demo) = Some ?l" "reset_date ?l = today demo"
    "faults demo = []" "SELECT_spending_limit 2 (store demo) = None"
    "default_daily_limit demo = 1000" "today demo = ''2024-01-02''" "now demo = 5"
    by (simp_all add: demo_def SELECT_spending_limit_def queryOne_Cons queryOne_Nil)
  have b: "SELECT_spending_limit 1 (store demo_next_day) = Some ?l"
    "reset_date ?l \<noteq> today demo_next_day" "faults demo_next_day = []"
    "today demo_next_day = ''2024-01-03''" "now demo_next_day = 5"
    by (simp_all add: demo_next_day_def demo_def SELECT_spending_limit_def queryOne_Cons)
  from check_writes_only_rollover[OF t(1), of 1 25] a
  have c: "snd (checkSpendingAllowed 1 25 demo) = demo" by blast
  from check_writes_only_rollover[OF t(2), of 1 25] b
  have s: "store (snd (checkSpendingAllowed 1 25 demo_next_day)) =
       UPDATE_spending_limits_reset ''2024-01-03'' 5 1 (store demo_next_day)" by metis
  from check_writes_only_rollover[OF t(1), of 2 25] a
  have n: "store (snd (checkSpendingAllowed 2 25 demo)) =
       INSERT_spending_limit 2 1000 ''2024-01-02'' 5 (store demo)" by metis
  from t a b c s n show ?thesis by simp
qed

section \<open>Transfer orchestrator\<close>

























section \<open>The orchestrator on concrete runs\<close>

text \<open>The definitions a concrete run unfolds, grouped by source file.\<close>

lemmas io_defs = andThen_def tryCatch_def await_def ret_def throw_def select_def execute_def
  run_def saveDb_def BEGIN_TRANSACTION_def COMMIT_def ROLLBACK_def runTransaction_def

lemmas sql_defs = SELECT_spending_limit_def SELECT_transaction_def queryOne_Cons queryOne_Nil
  query_def ORDER_BY_id_DESC_LIMIT_1_def UPDATE_where_def INSERT_transaction_def
  new_transaction_def UPDATE_transaction_status_def UPDATE_spending_limits_add_def
  UPDATE_spending_limits_reset_def INSERT_spending_limit_def next_rowid_def COALESCE_def
  str_or_null_def num_or_null_def

lemmas ledger_defs = checkSpendingAllowed_def getOrCreateSpendingLimit_def recordSpending_def
  createTransaction_def updateTransactionStatus_def executeTransfer_def

lemmas orchestrator_defs = transfer_def transferExternal_def declined_def message_of_def
  getExplorerUrl_def

lemmas scenario_defs = demo_def demo_next_day_def alice_def bob_def net_ok_def net_down_def

text \<open>
  \<open>executeTransfer\<close> on its own, with the limit row up to date: the UPDATE of the spend is
  the first \<open>execute\<close> after BEGIN, so the \<open>saveDb\<close> that follows it ends the transaction
  and takes the spend with it; the INSERT and the UPDATE to \<open>confirmed\<close> then run outside
  any transaction and stay; COMMIT and, in the \<open>catch\<close>, ROLLBACK find no transaction, and
  the error of ROLLBACK is what the caller gets. A confirmed row is left with no spend
  recorded.
\<close>

lemma executeTransfer_on_demo:
  "fst (executeTransfer 1 2 10 ''sig1'' 0 demo)
     = Inl (Error ''cannot rollback - no transaction is active'')
   \<and> map used_today (spending_limits (store (snd (executeTransfer 1 2 10 ''sig1'' 0 demo))))
       = [80]
   \<and> map (\<lambda>r. (tx_id r, status r, tx_signature r))
         (transactions (store (snd (executeTransfer 1 2 10 ''sig1'' 0 demo))))
       = [(1, Confirmed, Some ''sig1'')]"
  by (simp add: ledger_defs sql_defs io_defs scenario_defs Let_def)

text \<open>
  Claim C3 at an internal transfer of 10 from wallet 1 to wallet 2 on an empty ledger, with
  a settlement call that succeeds: \<open>transfer\<close> inserts a pending row (id 1) before the
  settlement call; \<open>executeTransfer\<close> then inserts a second row (id 2), confirms that one
  and raises; the \<open>catch\<close> of \<open>transfer\<close> marks row 1 \<open>failed\<close> and the call reports
  failure. Two rows exist for the one transfer, the row of step 3 is not the one confirmed,
  and the spend is not recorded.
\<close>

theorem transfer_confirms_second_row:
  "transactions (store demo) = []
   \<and> transferUsdc net_ok ''sk1'' ''BOB''
        (double_sub 10 (double_mul 10 (double_div (platform_fee_percent demo) 100)))
       = Inr ''sig1''
   \<and> fst (transfer net_ok alice bob 10 demo)
       = Inr (declined ''cannot rollback - no transaction is active'')
   \<and> map (\<lambda>r. (tx_id r, status r, tx_signature r))
         (transactions (store (snd (transfer net_ok alice bob 10 demo))))
       = [(1, Failed, None), (2, Confirmed, Some ''sig1'')]
   \<and> map used_today (spending_limits (store (snd (transfer net_ok alice bob 10 demo))))
       = [80]"
  by (simp add: orchestrator_defs ledger_defs sql_defs io_defs scenario_defs Let_def
      double_sub_def binary64_20)

text \<open>
  Claim C1 at an external transfer of 10 whose settlement succeeds and whose third database
  statement, the transition to \<open>confirmed\<close>, raises: \<open>transferExternal\<close> has already stored
  the spend (80 becomes 90) outside any unit of work, so the spend stays recorded while the
  transaction ends \<open>failed\<close>.
\<close>

theorem transferExternal_not_atomic:
  "transferUsdc net_ok ''sk1'' ''EXT'' 10 = Inr ''sig1''
   \<and> fst (transferExternal net_ok alice ''EXT'' 10 (demo\<lparr>faults := [False, False, True]\<rparr>))
     = Inr (declined ''SQLITE_ERROR'')
   \<and> map used_today (spending_limits (store demo)) = [80]
   \<and> map used_today (spending_limits (store (snd
        (transferExternal net_ok alice ''EXT'' 10 (demo\<lparr>faults := [False, False, True]\<rparr>)))))
       = [90]
   \<and> map status (transactions (store (snd
        (transferExternal net_ok alice ''EXT'' 10 (demo\<lparr>faults := [False, False, True]\<rparr>)))))
       = [Failed]"
  by (simp add: orchestrator_defs ledger_defs sql_defs io_defs scenario_defs Let_def
      double_sub_def double_add_def binary64_20 binary64_90)

end
